theory Spec2Isabelle
  imports
    Main
    "HOL-Library.Word"
    "HOL-Library.Char_ord"
    "HOL-Library.List_Lexorder"
    "HOL-Library.Product_Lexorder"
begin

section \<open>The BGPStream coordinator (bgpstream.c) and the components it drives\<close>

text \<open>
  The coordinator \<^verbatim>\<open>bgpstream_t\<close> is embedded from its C source. It owns four
  components (filter manager, data interface manager, input manager, reader manager)
  whose implementation files are not part of the sources at hand; only the header of
  the data source manager is. Each of their operations is therefore a definition
  marked \<open>Modelled from the spec\<close>, following the words of the specification.
  Debug and log macros are not modelled.
\<close>

subsection \<open>Machine types and constants\<close>

type_synonym u32 = "32 word"
type_synonym u8 = "8 word"

text \<open>Modelled from the spec: \<^verbatim>\<open>BGPSTREAM_FOREVER\<close> (its header is missing) is \<^verbatim>\<open>UINT32_MAX\<close>.\<close>

definition BGPSTREAM_FOREVER :: u32 where
  "BGPSTREAM_FOREVER = 4294967295"

text \<open>What a C call hands back to its caller: nothing for a \<^verbatim>\<open>void\<close> function,
  an \<^verbatim>\<open>int\<close> otherwise. A negative \<^verbatim>\<open>int\<close> is the error convention of the library.\<close>

datatype retval = RVoid | RInt int

definition is_error :: "retval \<Rightarrow> bool" where
  "is_error r = (case r of RVoid \<Rightarrow> False | RInt n \<Rightarrow> n < 0)"

text \<open>Dereferencing a \<^verbatim>\<open>NULL\<close> handle is the one fault the coordinator code can run into.\<close>

datatype fault = NullPointerDereference

datatype bgpstream_status =
  BGPSTREAM_STATUS_ALLOCATED | BGPSTREAM_STATUS_ON | BGPSTREAM_STATUS_OFF

subsection \<open>Filter manager\<close>

text \<open>Modelled from the spec: the filter kinds of the Filter Set (the enumeration
  \<^verbatim>\<open>bgpstream_filter_type_t\<close> is declared in a missing header).\<close>

datatype bgpstream_filter_type =
  FILTER_COLLECTOR | FILTER_PROJECT | FILTER_PEER_ASN | FILTER_PREFIX | FILTER_ELEM_TYPE

record bgpstream_filter_mgr =
  filters :: "(bgpstream_filter_type \<times> string) list"
  rib_period :: u32
  time_intervals :: "(u32 \<times> u32) list"

text \<open>Modelled from the spec: \<^verbatim>\<open>bgpstream_filter_mgr_create\<close> is missing; a new
  filter set holds no predicate.\<close>

definition bgpstream_filter_mgr_create :: bgpstream_filter_mgr where
  "bgpstream_filter_mgr_create = \<lparr>filters = [], rib_period = 0, time_intervals = []\<rparr>"

text \<open>Modelled from the spec: \<^verbatim>\<open>bgpstream_filter_mgr_filter_add\<close> is missing;
  \<open>add(kind, value)\<close> stores the predicate (the syntax check of the value depends on
  the kind and is left out: the coordinator ignores its outcome).\<close>

definition bgpstream_filter_mgr_filter_add ::
  "bgpstream_filter_mgr \<Rightarrow> bgpstream_filter_type \<Rightarrow> string \<Rightarrow> bgpstream_filter_mgr" where
  "bgpstream_filter_mgr_filter_add fm t v = fm\<lparr>filters := filters fm @ [(t, v)]\<rparr>"

text \<open>Modelled from the spec: \<^verbatim>\<open>bgpstream_filter_mgr_rib_period_filter_add\<close> is
  missing; \<open>add_rib_period(seconds)\<close> sets the per-collector RIB window.\<close>

definition bgpstream_filter_mgr_rib_period_filter_add ::
  "bgpstream_filter_mgr \<Rightarrow> u32 \<Rightarrow> bgpstream_filter_mgr" where
  "bgpstream_filter_mgr_rib_period_filter_add fm p = fm\<lparr>rib_period := p\<rparr>"

text \<open>Modelled from the spec: \<^verbatim>\<open>bgpstream_filter_mgr_interval_filter_add\<close> is
  missing; \<open>add_interval(begin, end)\<close> appends one interval.\<close>

definition bgpstream_filter_mgr_interval_filter_add ::
  "bgpstream_filter_mgr \<Rightarrow> u32 \<Rightarrow> u32 \<Rightarrow> bgpstream_filter_mgr" where
  "bgpstream_filter_mgr_interval_filter_add fm b e =
     fm\<lparr>time_intervals := time_intervals fm @ [(b, e)]\<rparr>"

text \<open>Modelled from the spec: \<^verbatim>\<open>bgpstream_filter_mgr_validate\<close> is missing;
  \<open>validate()\<close> fails iff no time interval was ever added. Zero is success.\<close>

definition bgpstream_filter_mgr_validate :: "bgpstream_filter_mgr \<Rightarrow> int" where
  "bgpstream_filter_mgr_validate fm = (if time_intervals fm = [] then - 1 else 0)"

subsection \<open>Archive files, input descriptors and the input queue\<close>

datatype dump_type = RIB | UPDATES

text \<open>A decoded BGP record, as far as the pipeline looks at it: its timestamp; the
  rest (elements, raw bytes) is opaque.\<close>

record mrt_record =
  record_time :: u32
  payload :: string

text \<open>Modelled from the spec: the Input Descriptor. \<open>dump_records\<close> is what the
  decoder yields for the file at \<open>file_path\<close> before it reaches the end of the file
  or fails.\<close>

record bgpstream_input =
  file_path :: string
  file_type :: dump_type
  collector :: string
  project :: string
  file_time :: u32
  dump_records :: "mrt_record list"

fun type_rank :: "dump_type \<Rightarrow> nat" where
  "type_rank RIB = 0"
| "type_rank UPDATES = 1"

text \<open>Modelled from the spec: the ordering key of the queue is the file timestamp,
  then RIB before UPDATES.\<close>

definition input_key :: "bgpstream_input \<Rightarrow> u32 \<times> nat" where
  "input_key i = (file_time i, type_rank (file_type i))"

type_synonym bgpstream_input_mgr = "bgpstream_input list"

text \<open>Modelled from the spec: the functions of the input manager are missing. The
  queue is kept sorted by its key; the batch to process is the whole queue, drained
  in key order.\<close>

definition bgpstream_input_mgr_create :: bgpstream_input_mgr where
  "bgpstream_input_mgr_create = []"

definition bgpstream_input_mgr_is_empty :: "bgpstream_input_mgr \<Rightarrow> bool" where
  "bgpstream_input_mgr_is_empty q = (q = [])"

definition bgpstream_input_mgr_push ::
  "bgpstream_input_mgr \<Rightarrow> bgpstream_input \<Rightarrow> bgpstream_input_mgr" where
  "bgpstream_input_mgr_push q i = insort_key input_key i q"

definition bgpstream_input_mgr_get_queue_to_process ::
  "bgpstream_input_mgr \<Rightarrow> bgpstream_input list \<times> bgpstream_input_mgr" where
  "bgpstream_input_mgr_get_queue_to_process q = (q, [])"

subsection \<open>Data interface manager\<close>

text \<open>The four data sources of \<^verbatim>\<open>bgpstream_datasource_mgr_t\<close>.\<close>

datatype bgpstream_data_interface_id =
  BGPSTREAM_DATA_INTERFACE_MYSQL
| BGPSTREAM_DATA_INTERFACE_SINGLEFILE
| BGPSTREAM_DATA_INTERFACE_CSVFILE
| BGPSTREAM_DATA_INTERFACE_SQLITE

datatype bgpstream_datasource_status =
  BGPSTREAM_DATASOURCE_STATUS_ON
| BGPSTREAM_DATASOURCE_STATUS_OFF
| BGPSTREAM_DATASOURCE_STATUS_ERROR

text \<open>An option descriptor, as the initialiser of \<^verbatim>\<open>bgpstream_sqlite_options\<close>
  shows it: interface, option id, name, description.\<close>

record bgpstream_data_interface_option =
  if_id :: bgpstream_data_interface_id
  opt_id :: nat
  opt_name :: string
  opt_description :: string

text \<open>One answer of the backend to a query: a failure, or zero or more descriptors.\<close>

datatype poll_result = POLL_ERROR | POLL_OK "bgpstream_input list"

text \<open>The world outside the library: whether the resources of the backend can be
  opened, and the answers the backend will give to the queries to come, in order.
  Once \<open>answers\<close> is used up the backend has nothing more and answers with zero
  descriptors for ever.\<close>

record backend =
  reachable :: bool
  answers :: "poll_result list"

text \<open>The manager, after \<^verbatim>\<open>bgpstream_datasource_mgr_t\<close>: the selected data source,
  the options (the header has one string field per option; here they are kept by
  interface and name), the blocking flag and the backoff time. \<open>slept\<close> logs the
  argument of each call to \<^verbatim>\<open>sleep\<close>, oldest first.\<close>

record bgpstream_di_mgr =
  datasource :: "bgpstream_data_interface_id option"
  di_options :: "((bgpstream_data_interface_id \<times> string) \<times> string) list"
  blocking :: int
  backoff_time :: int
  di_status :: bgpstream_datasource_status
  the_backend :: backend
  slept :: "int list"

text \<open>Modelled from the spec: the bounds of the backoff (initial 30 s, doubling up to
  1 hour); the macros are in a missing file.\<close>

definition DATASOURCE_BLOCKING_MIN_WAIT :: int where
  "DATASOURCE_BLOCKING_MIN_WAIT = 30"

definition DATASOURCE_BLOCKING_MAX_WAIT :: int where
  "DATASOURCE_BLOCKING_MAX_WAIT = 3600"

text \<open>Modelled from the spec: \<^verbatim>\<open>bgpstream_di_mgr_create\<close> is missing. No interface is
  selected yet, the manager does not block, the backoff starts at its minimum.\<close>

definition bgpstream_di_mgr_create :: "backend \<Rightarrow> bgpstream_di_mgr" where
  "bgpstream_di_mgr_create b =
     \<lparr>datasource = None, di_options = [], blocking = 0,
      backoff_time = DATASOURCE_BLOCKING_MIN_WAIT,
      di_status = BGPSTREAM_DATASOURCE_STATUS_OFF, the_backend = b, slept = []\<rparr>"

text \<open>Modelled from the spec: \<^verbatim>\<open>bgpstream_di_mgr_set_data_interface\<close> is missing; it
  makes the given backend the active one.\<close>

definition bgpstream_di_mgr_set_data_interface ::
  "bgpstream_di_mgr \<Rightarrow> bgpstream_data_interface_id \<Rightarrow> bgpstream_di_mgr" where
  "bgpstream_di_mgr_set_data_interface di d = di\<lparr>datasource := Some d\<rparr>"

text \<open>Modelled from the spec: the published options, by backend (the table of backend
  options, split as the fields of \<^verbatim>\<open>bgpstream_datasource_mgr_t\<close> are).\<close>

fun published_options :: "bgpstream_data_interface_id \<Rightarrow> string list" where
  "published_options BGPSTREAM_DATA_INTERFACE_MYSQL =
     [''db-name'', ''user'', ''password'', ''host'', ''port'', ''socket'', ''dump-path'']"
| "published_options BGPSTREAM_DATA_INTERFACE_SINGLEFILE = [''rib-file'', ''upd-file'']"
| "published_options BGPSTREAM_DATA_INTERFACE_CSVFILE = [''csv-file'']"
| "published_options BGPSTREAM_DATA_INTERFACE_SQLITE = [''db-file'']"

text \<open>Modelled from the spec: \<^verbatim>\<open>bgpstream_di_mgr_set_data_interface_option\<close> is
  missing; \<open>configure\<close> sets an option of the published list and fails on an unknown
  one. Zero is success.\<close>

definition bgpstream_di_mgr_set_data_interface_option ::
  "bgpstream_di_mgr \<Rightarrow> bgpstream_data_interface_option \<Rightarrow> string \<Rightarrow> int \<times> bgpstream_di_mgr" where
  "bgpstream_di_mgr_set_data_interface_option di opt v =
     (if opt_name opt \<in> set (published_options (if_id opt))
      then (0, di\<lparr>di_options :=
               ((if_id opt, opt_name opt), v) #
               filter (\<lambda>p. fst p \<noteq> (if_id opt, opt_name opt)) (di_options di)\<rparr>)
      else (- 1, di))"

text \<open>Modelled from the spec: \<^verbatim>\<open>bgpstream_di_mgr_set_blocking\<close> is missing
  (\<^verbatim>\<open>bgpstream_datasource_mgr_set_blocking\<close> in the header); it sets the blocking
  flag, which is the live mode.\<close>

definition bgpstream_di_mgr_set_blocking :: "bgpstream_di_mgr \<Rightarrow> bgpstream_di_mgr" where
  "bgpstream_di_mgr_set_blocking di = di\<lparr>blocking := 1\<rparr>"

text \<open>Modelled from the spec: \<^verbatim>\<open>bgpstream_di_mgr_start\<close> is missing; \<open>start()\<close> opens
  the resources of the backend and fails when they cannot be opened. Zero is success.\<close>

definition bgpstream_di_mgr_start :: "bgpstream_di_mgr \<Rightarrow> int \<times> bgpstream_di_mgr" where
  "bgpstream_di_mgr_start di =
     (if reachable (the_backend di)
      then (0, di\<lparr>di_status := BGPSTREAM_DATASOURCE_STATUS_ON\<rparr>)
      else (- 1, di\<lparr>di_status := BGPSTREAM_DATASOURCE_STATUS_ERROR\<rparr>))"

definition set_answers :: "bgpstream_di_mgr \<Rightarrow> poll_result list \<Rightarrow> bgpstream_di_mgr" where
  "set_answers di ps = di\<lparr>the_backend := (the_backend di)\<lparr>answers := ps\<rparr>\<rparr>"

text \<open>Modelled from the spec: one sleep of the refill protocol. The manager sleeps
  \<open>backoff_time\<close>, then doubles it up to the maximum.\<close>

definition backoff_sleep :: "bgpstream_di_mgr \<Rightarrow> bgpstream_di_mgr" where
  "backoff_sleep di =
     di\<lparr>slept := slept di @ [backoff_time di],
        backoff_time := min (2 * backoff_time di) DATASOURCE_BLOCKING_MAX_WAIT\<rparr>"

text \<open>Modelled from the spec: the polling loop of the refill protocol, over the
  answers the backend is going to give. A failure of the backend is reported with a
  negative count. Zero descriptors end the stream in bounded mode; in live mode the
  manager sleeps and polls again. A non-empty answer goes to the input queue, resets
  the backoff, and its size is the count. \<open>None\<close>: the call never returns (live mode,
  and the backend has nothing more for ever).\<close>

fun poll_loop ::
  "bgpstream_di_mgr \<Rightarrow> bgpstream_input_mgr \<Rightarrow> poll_result list \<Rightarrow>
   (int \<times> bgpstream_di_mgr \<times> bgpstream_input_mgr) option" where
  "poll_loop di im [] =
     (if blocking di \<noteq> 0 then None else Some (0, set_answers di [], im))"
| "poll_loop di im (POLL_ERROR # ps) = Some (- 1, set_answers di ps, im)"
| "poll_loop di im (POLL_OK ins # ps) =
     (if ins \<noteq> [] then
        Some (int (length ins),
              (set_answers di ps)\<lparr>backoff_time := DATASOURCE_BLOCKING_MIN_WAIT\<rparr>,
              foldl bgpstream_input_mgr_push im ins)
      else if blocking di \<noteq> 0 then poll_loop (backoff_sleep di) im ps
      else Some (0, set_answers di ps, im))"

text \<open>Modelled from the spec: \<^verbatim>\<open>bgpstream_di_mgr_get_queue\<close> is missing
  (\<^verbatim>\<open>bgpstream_datasource_mgr_update_input_queue\<close> in the header).\<close>

definition bgpstream_di_mgr_get_queue ::
  "bgpstream_di_mgr \<Rightarrow> bgpstream_input_mgr \<Rightarrow>
   (int \<times> bgpstream_di_mgr \<times> bgpstream_input_mgr) option" where
  "bgpstream_di_mgr_get_queue di im = poll_loop di im (answers (the_backend di))"

subsection \<open>Reader manager\<close>

text \<open>The predicates of the filter set whose meaning the specification leaves to the
  implementation are parameters of the model: the coarse match of a descriptor, and
  the peer, prefix and element-type part of the fine match of a record.\<close>

record match_env =
  coarse_match :: "bgpstream_filter_mgr \<Rightarrow> bgpstream_input \<Rightarrow> bool"
  elem_match :: "(bgpstream_filter_type \<times> string) list \<Rightarrow> mrt_record \<Rightarrow> bool"

text \<open>Modelled from the spec: \<open>fine_match(record)\<close> is true iff the timestamp of the
  record lies in an interval and the peer, prefix and element-type predicates admit it.\<close>

definition fine_match :: "match_env \<Rightarrow> bgpstream_filter_mgr \<Rightarrow> mrt_record \<Rightarrow> bool" where
  "fine_match M fm r =
     (list_ex (\<lambda>(b, e). b \<le> record_time r \<and> record_time r \<le> e) (time_intervals fm)
      \<and> elem_match M (filters fm) r)"

text \<open>Modelled from the spec: a reader in state READY, a cursor over one file: its
  descriptor, its head record (the next one to deliver) and the records not yet
  decoded.\<close>

record bgpstream_reader =
  reader_input :: bgpstream_input
  head_record :: mrt_record
  undecoded :: "mrt_record list"

text \<open>Modelled from the spec: advancing a reader decodes the next records and applies
  the fine match until one is admitted; \<open>None\<close> is the end of the file.\<close>

definition reader_advance ::
  "match_env \<Rightarrow> bgpstream_filter_mgr \<Rightarrow> bgpstream_input \<Rightarrow> mrt_record list \<Rightarrow>
   bgpstream_reader option" where
  "reader_advance M fm i rs =
     (case dropWhile (\<lambda>r. \<not> fine_match M fm r) rs of
        [] \<Rightarrow> None
      | r # rest \<Rightarrow> Some \<lparr>reader_input = i, head_record = r, undecoded = rest\<rparr>)"

text \<open>Modelled from the spec: a reader opens its file and primes its head record; a
  descriptor the coarse match rejects is not read.\<close>

definition reader_open ::
  "match_env \<Rightarrow> bgpstream_filter_mgr \<Rightarrow> bgpstream_input \<Rightarrow> bgpstream_reader option" where
  "reader_open M fm i =
     (if coarse_match M fm i then reader_advance M fm i (dump_records i) else None)"

type_synonym bgpstream_reader_mgr = "bgpstream_reader list"

text \<open>Modelled from the spec: the functions of the reader manager are missing. The
  set holds the READY readers in the order of their insertion; a reader that reaches
  the end of its file while priming never enters it.\<close>

definition bgpstream_reader_mgr_create :: bgpstream_reader_mgr where
  "bgpstream_reader_mgr_create = []"

definition bgpstream_reader_mgr_is_empty :: "bgpstream_reader_mgr \<Rightarrow> bool" where
  "bgpstream_reader_mgr_is_empty rm = (rm = [])"

definition bgpstream_reader_mgr_add ::
  "match_env \<Rightarrow> bgpstream_reader_mgr \<Rightarrow> bgpstream_input list \<Rightarrow> bgpstream_filter_mgr \<Rightarrow>
   bgpstream_reader_mgr" where
  "bgpstream_reader_mgr_add M rm ins fm = rm @ List.map_filter (reader_open M fm) ins"

text \<open>Modelled from the spec: readers are ordered by the timestamp of the head
  record, then the collector name, then RIB before UPDATES, then their insertion
  sequence (here: the position in the list, as \<open>arg_min_list\<close> takes the first of
  the least).\<close>

definition reader_key :: "bgpstream_reader \<Rightarrow> u32 \<times> string \<times> nat" where
  "reader_key R =
     (record_time (head_record R), collector (reader_input R),
      type_rank (file_type (reader_input R)))"

fun replace_first ::
  "bgpstream_reader \<Rightarrow> bgpstream_reader option \<Rightarrow> bgpstream_reader list \<Rightarrow>
   bgpstream_reader list" where
  "replace_first R new [] = []"
| "replace_first R new (x # xs) =
     (if x = R then (case new of None \<Rightarrow> xs | Some R' \<Rightarrow> R' # xs)
      else x # replace_first R new xs)"

text \<open>The record of the caller: the back pointer to the stream, and the decoded
  entry it holds (attributes other than the time are left out).\<close>

record bgpstream_record =
  rec_bs :: bool
  rec_entry :: "mrt_record option"

text \<open>Modelled from the spec: \<^verbatim>\<open>bgpstream_record_clear\<close> is missing; it destroys the
  entry the record holds.\<close>

definition bgpstream_record_clear :: "bgpstream_record \<Rightarrow> bgpstream_record" where
  "bgpstream_record_clear r = r\<lparr>rec_entry := None\<rparr>"

text \<open>Modelled from the spec: the emission step \<open>pop_next\<close>. An empty set asks for a
  refill (0). Otherwise the reader with the least key delivers its head record (1),
  advances, and is dropped at the end of its file or keeps its place.\<close>

definition bgpstream_reader_mgr_get_next_record ::
  "match_env \<Rightarrow> bgpstream_reader_mgr \<Rightarrow> bgpstream_record \<Rightarrow> bgpstream_filter_mgr \<Rightarrow>
   int \<times> bgpstream_reader_mgr \<times> bgpstream_record" where
  "bgpstream_reader_mgr_get_next_record M rm r fm =
     (if rm = [] then (0, rm, r)
      else let R = arg_min_list reader_key rm in
        (1,
         replace_first R (reader_advance M fm (reader_input R) (undecoded R)) rm,
         r\<lparr>rec_entry := Some (head_record R)\<rparr>))"

subsection \<open>Recent intervals\<close>

text \<open>Modelled from the spec: \<^verbatim>\<open>bgpstream_time_calc_recent_interval\<close> is missing. A
  duration specifier is a non-empty run of digits and at most one unit letter out of
  \<^verbatim>\<open>s m h d w\<close> (seconds when there is none); the interval is \<open>[now - spec, now]\<close>, in
  32-bit arithmetic. \<open>now\<close> is the clock the function reads. \<open>None\<close> stands for
  the return value 0 (the specifier cannot be parsed), where the two output
  parameters are not written.\<close>

definition is_digit :: "char \<Rightarrow> bool" where
  "is_digit c = (CHR ''0'' \<le> c \<and> c \<le> CHR ''9'')"

definition decimal :: "string \<Rightarrow> nat" where
  "decimal ds = foldl (\<lambda>a c. 10 * a + (of_char c - 48)) 0 ds"

definition unit_seconds :: "char \<Rightarrow> nat option" where
  "unit_seconds c =
     (if c = CHR ''s'' then Some 1
      else if c = CHR ''m'' then Some 60
      else if c = CHR ''h'' then Some 3600
      else if c = CHR ''d'' then Some 86400
      else if c = CHR ''w'' then Some 604800
      else None)"

definition parse_duration :: "string \<Rightarrow> nat option" where
  "parse_duration s =
     (let ds = takeWhile is_digit s; u = dropWhile is_digit s in
      if ds = [] then None
      else case u of
             [] \<Rightarrow> Some (decimal ds)
           | [c] \<Rightarrow> map_option (\<lambda>m. decimal ds * m) (unit_seconds c)
           | _ \<Rightarrow> None)"

definition bgpstream_time_calc_recent_interval :: "u32 \<Rightarrow> string \<Rightarrow> (u32 \<times> u32) option" where
  "bgpstream_time_calc_recent_interval now s =
     (case parse_duration s of
        None \<Rightarrow> None
      | Some d \<Rightarrow> Some (now - of_nat d, now))"

subsection \<open>The coordinator\<close>

record bgpstream =
  status :: bgpstream_status
  filter_mgr :: bgpstream_filter_mgr
  di_mgr :: bgpstream_di_mgr
  input_mgr :: bgpstream_input_mgr
  reader_mgr :: bgpstream_reader_mgr

text \<open>A handle \<^verbatim>\<open>bgpstream_t *\<close> is \<open>None\<close> for \<^verbatim>\<open>NULL\<close> and \<open>Some bs\<close> for a pointer
  to the object \<open>bs\<close>. Creating and destroying leave a trace of what they do to the
  components.\<close>

datatype component = FILTER_MGR | DI_MGR | INPUT_MGR | READER_MGR

datatype event =
  Created component | Destroyed component | StatusSet bgpstream_status | Freed

text \<open>\<^verbatim>\<open>bgpstream_create\<close>. \<open>malloc_ok\<close> and \<open>ok\<close> say which allocations succeed, \<open>b\<close>
  is the backend the data interface will talk to. When a component cannot be created
  the source hands the half-built object to \<^verbatim>\<open>bgpstream_destroy\<close> and returns
  \<^verbatim>\<open>NULL\<close>; the fields not yet assigned are indeterminate there, and the model keeps
  only the components created so far and the \<^verbatim>\<open>NULL\<close>.\<close>

definition bgpstream_create ::
  "bool \<Rightarrow> (component \<Rightarrow> bool) \<Rightarrow> backend \<Rightarrow> event list \<times> bgpstream option" where
  "bgpstream_create malloc_ok ok b =
     (if \<not> malloc_ok then ([], None)
      else if \<not> ok FILTER_MGR then ([], None)
      else if \<not> ok DI_MGR then ([Created FILTER_MGR], None)
      else if \<not> ok INPUT_MGR then ([Created FILTER_MGR, Created DI_MGR], None)
      else if \<not> ok READER_MGR then
        ([Created FILTER_MGR, Created DI_MGR, Created INPUT_MGR], None)
      else
        ([Created FILTER_MGR, Created DI_MGR, Created INPUT_MGR, Created READER_MGR],
         Some \<lparr>status = BGPSTREAM_STATUS_ALLOCATED,
               filter_mgr = bgpstream_filter_mgr_create,
               di_mgr = bgpstream_di_mgr_create b,
               input_mgr = bgpstream_input_mgr_create,
               reader_mgr = bgpstream_reader_mgr_create\<rparr>))"

text \<open>\<^verbatim>\<open>bgpstream_add_filter\<close>\<close>

definition bgpstream_add_filter ::
  "bgpstream option \<Rightarrow> bgpstream_filter_type \<Rightarrow> string \<Rightarrow> retval \<times> bgpstream option" where
  "bgpstream_add_filter h filter_type filter_value =
     (case h of
        None \<Rightarrow> (RVoid, None)
      | Some bs \<Rightarrow>
          if status bs \<noteq> BGPSTREAM_STATUS_ALLOCATED then (RVoid, Some bs)
          else (RVoid,
                Some (bs\<lparr>filter_mgr :=
                  bgpstream_filter_mgr_filter_add (filter_mgr bs) filter_type filter_value\<rparr>)))"

text \<open>\<^verbatim>\<open>bgpstream_add_rib_period_filter\<close>\<close>

definition bgpstream_add_rib_period_filter ::
  "bgpstream option \<Rightarrow> u32 \<Rightarrow> retval \<times> bgpstream option" where
  "bgpstream_add_rib_period_filter h period =
     (case h of
        None \<Rightarrow> (RVoid, None)
      | Some bs \<Rightarrow>
          if status bs \<noteq> BGPSTREAM_STATUS_ALLOCATED then (RVoid, Some bs)
          else (RVoid,
                Some (bs\<lparr>filter_mgr :=
                  bgpstream_filter_mgr_rib_period_filter_add (filter_mgr bs) period\<rparr>)))"

text \<open>\<^verbatim>\<open>bgpstream_set_live_mode\<close>: the handle is dereferenced without a check.\<close>

definition bgpstream_set_live_mode :: "bgpstream option \<Rightarrow> fault + retval \<times> bgpstream" where
  "bgpstream_set_live_mode h =
     (case h of
        None \<Rightarrow> Inl NullPointerDereference
      | Some bs \<Rightarrow> Inr (RVoid, bs\<lparr>di_mgr := bgpstream_di_mgr_set_blocking (di_mgr bs)\<rparr>))"

text \<open>\<^verbatim>\<open>bgpstream_add_recent_interval_filter\<close>; \<open>now\<close> is the clock.\<close>

definition bgpstream_add_recent_interval_filter ::
  "u32 \<Rightarrow> bgpstream option \<Rightarrow> string \<Rightarrow> u8 \<Rightarrow> fault + retval \<times> bgpstream option" where
  "bgpstream_add_recent_interval_filter now h interval islive =
     (case h of
        None \<Rightarrow> Inr (RVoid, None)
      | Some bs \<Rightarrow>
          if status bs \<noteq> BGPSTREAM_STATUS_ALLOCATED then Inr (RVoid, Some bs)
          else
            (case bgpstream_time_calc_recent_interval now interval of
               None \<Rightarrow> Inr (RVoid, Some bs)
             | Some (starttime, endtime) \<Rightarrow>
                 (case (if islive \<noteq> 0
                        then map_sum id (\<lambda>(_, bs'). (bs', BGPSTREAM_FOREVER))
                               (bgpstream_set_live_mode (Some bs))
                        else Inr (bs, endtime)) of
                    Inl f \<Rightarrow> Inl f
                  | Inr (bs1, endtime1) \<Rightarrow>
                      Inr (RVoid,
                           Some (bs1\<lparr>filter_mgr :=
                             bgpstream_filter_mgr_interval_filter_add (filter_mgr bs1)
                               starttime endtime1\<rparr>)))))"

text \<open>\<^verbatim>\<open>bgpstream_add_interval_filter\<close>\<close>

definition bgpstream_add_interval_filter ::
  "bgpstream option \<Rightarrow> u32 \<Rightarrow> u32 \<Rightarrow> fault + retval \<times> bgpstream option" where
  "bgpstream_add_interval_filter h begin_time end_time =
     (case h of
        None \<Rightarrow> Inr (RVoid, None)
      | Some bs \<Rightarrow>
          if status bs \<noteq> BGPSTREAM_STATUS_ALLOCATED then Inr (RVoid, Some bs)
          else
            (case (if end_time = BGPSTREAM_FOREVER
                   then map_sum id snd (bgpstream_set_live_mode (Some bs))
                   else Inr bs) of
               Inl f \<Rightarrow> Inl f
             | Inr bs1 \<Rightarrow>
                 Inr (RVoid,
                      Some (bs1\<lparr>filter_mgr :=
                        bgpstream_filter_mgr_interval_filter_add (filter_mgr bs1)
                          begin_time end_time\<rparr>))))"

text \<open>\<^verbatim>\<open>bgpstream_set_data_interface_option\<close>: no check of the handle or of the status.\<close>

definition bgpstream_set_data_interface_option ::
  "bgpstream option \<Rightarrow> bgpstream_data_interface_option \<Rightarrow> string \<Rightarrow>
   fault + retval \<times> bgpstream" where
  "bgpstream_set_data_interface_option h option_type option_value =
     (case h of
        None \<Rightarrow> Inl NullPointerDereference
      | Some bs \<Rightarrow>
          (case bgpstream_di_mgr_set_data_interface_option (di_mgr bs)
                  option_type option_value of
             (rc, di') \<Rightarrow> Inr (RInt rc, bs\<lparr>di_mgr := di'\<rparr>)))"

text \<open>\<^verbatim>\<open>bgpstream_set_data_interface\<close>: no check of the handle or of the status.\<close>

definition bgpstream_set_data_interface ::
  "bgpstream option \<Rightarrow> bgpstream_data_interface_id \<Rightarrow> fault + retval \<times> bgpstream" where
  "bgpstream_set_data_interface h di =
     (case h of
        None \<Rightarrow> Inl NullPointerDereference
      | Some bs \<Rightarrow>
          Inr (RVoid, bs\<lparr>di_mgr := bgpstream_di_mgr_set_data_interface (di_mgr bs) di\<rparr>))"

text \<open>\<^verbatim>\<open>bgpstream_start\<close>: no check of the handle.\<close>

definition bgpstream_start :: "bgpstream option \<Rightarrow> fault + retval \<times> bgpstream" where
  "bgpstream_start h =
     (case h of
        None \<Rightarrow> Inl NullPointerDereference
      | Some bs \<Rightarrow>
          (let rc = bgpstream_filter_mgr_validate (filter_mgr bs) in
           if rc \<noteq> 0 then Inr (RInt rc, bs)
           else
             (case bgpstream_di_mgr_start (di_mgr bs) of
                (r, di') \<Rightarrow>
                  if r \<noteq> 0
                  then Inr (RInt (- 1),
                            bs\<lparr>di_mgr := di', status := BGPSTREAM_STATUS_ALLOCATED\<rparr>)
                  else Inr (RInt 0, bs\<lparr>di_mgr := di', status := BGPSTREAM_STATUS_ON\<rparr>))))"

text \<open>A poll that returns a non-zero count has used up at least one answer of the
  backend: this is what makes the loops of \<^verbatim>\<open>bgpstream_get_next_record\<close> end.\<close>

lemma poll_loop_consumes:
  "poll_loop di im ps = Some (n, di', im') \<Longrightarrow> n \<noteq> 0 \<Longrightarrow>
   length (answers (the_backend di')) < length ps"
proof (induction di im ps rule: poll_loop.induct)
  case (1 di im)
  then show ?case by (simp split: if_splits)
next
  case (2 di im ps)
  then show ?case by (auto simp: set_answers_def)
next
  case (3 di im ins ps)
  then show ?case by (fastforce simp: set_answers_def split: if_splits)
qed

text \<open>How a loop of \<^verbatim>\<open>bgpstream_get_next_record\<close> is left: by a \<^verbatim>\<open>return\<close> of the
  function, or because its condition is false.\<close>

datatype loop_exit = Return int bgpstream | Done bgpstream

text \<open>The inner loop of \<^verbatim>\<open>bgpstream_get_next_record\<close>:
  \<^verbatim>\<open>while (bgpstream_input_mgr_is_empty(bs->input_mgr))\<close>. \<open>None\<close>: the query of the
  data interface never returns.\<close>

function input_loop :: "bgpstream \<Rightarrow> loop_exit option" where
  "input_loop bs =
     (if bgpstream_input_mgr_is_empty (input_mgr bs) then
        (case bgpstream_di_mgr_get_queue (di_mgr bs) (input_mgr bs) of
           None \<Rightarrow> None
         | Some (num_query_results, di', im') \<Rightarrow>
             if num_query_results = 0
             then Some (Return 0 (bs\<lparr>di_mgr := di', input_mgr := im'\<rparr>))
             else if num_query_results < 0
             then Some (Return (- 1) (bs\<lparr>di_mgr := di', input_mgr := im'\<rparr>))
             else input_loop (bs\<lparr>di_mgr := di', input_mgr := im'\<rparr>))
      else Some (Done bs))"
  by pat_completeness auto
termination
proof (relation "measure (\<lambda>bs. length (answers (the_backend (di_mgr bs))))")
  show "wf (measure (\<lambda>bs. length (answers (the_backend (di_mgr bs)))))"
    by simp
next
  fix bs :: bgpstream and x2 n y di' im'
  assume "bgpstream_di_mgr_get_queue (di_mgr bs) (input_mgr bs) = Some x2"
    and "(n, y) = x2" and "(di', im') = y" and "n \<noteq> 0"
  then have "poll_loop (di_mgr bs) (input_mgr bs) (answers (the_backend (di_mgr bs)))
      = Some (n, di', im')"
    by (simp add: bgpstream_di_mgr_get_queue_def)
  from poll_loop_consumes [OF this \<open>n \<noteq> 0\<close>]
  show "(bs\<lparr>di_mgr := di', input_mgr := im'\<rparr>, bs)
      \<in> measure (\<lambda>bs. length (answers (the_backend (di_mgr bs))))"
    by simp
qed

lemma input_loop_Done:
  "input_loop bs = Some (Done bs1) \<Longrightarrow>
   input_mgr bs1 \<noteq> [] \<and>
   (bs1 = bs \<or>
    length (answers (the_backend (di_mgr bs1))) < length (answers (the_backend (di_mgr bs))))"
proof (induction bs rule: input_loop.induct)
  case (1 bs)
  show ?case
  proof (cases "bgpstream_input_mgr_is_empty (input_mgr bs)")
    case False
    with "1.prems" show ?thesis
      by (simp add: bgpstream_input_mgr_is_empty_def)
  next
    case True
    with "1.prems" obtain n di' im' where
      q: "bgpstream_di_mgr_get_queue (di_mgr bs) (input_mgr bs) = Some (n, di', im')"
      by (auto split: option.splits)
    with True "1.prems" have n: "n \<noteq> 0" "\<not> n < 0"
      and rec: "input_loop (bs\<lparr>di_mgr := di', input_mgr := im'\<rparr>) = Some (Done bs1)"
      by (auto split: if_splits)
    from q n(1) have lt: "length (answers (the_backend di'))
        < length (answers (the_backend (di_mgr bs)))"
      using poll_loop_consumes by (simp add: bgpstream_di_mgr_get_queue_def)
    from "1.IH" [OF True q refl refl n rec] lt show ?thesis
      by auto
  qed
qed

text \<open>The outer loop: \<^verbatim>\<open>while (bgpstream_reader_mgr_is_empty(bs->reader_mgr))\<close>.\<close>

function reader_loop :: "match_env \<Rightarrow> bgpstream \<Rightarrow> loop_exit option" where
  "reader_loop M bs =
     (if bgpstream_reader_mgr_is_empty (reader_mgr bs) then
        (case input_loop bs of
           None \<Rightarrow> None
         | Some (Return rc bs') \<Rightarrow> Some (Return rc bs')
         | Some (Done bs1) \<Rightarrow>
             reader_loop M
               (bs1\<lparr>input_mgr :=
                      snd (bgpstream_input_mgr_get_queue_to_process (input_mgr bs1)),
                    reader_mgr :=
                      bgpstream_reader_mgr_add M (reader_mgr bs1)
                        (fst (bgpstream_input_mgr_get_queue_to_process (input_mgr bs1)))
                        (filter_mgr bs1)\<rparr>))
      else Some (Done bs))"
  by pat_completeness auto
termination
proof (relation "measure (\<lambda>(M, bs). 2 * length (answers (the_backend (di_mgr bs)))
                   + (if input_mgr bs = [] then 0 else 1))")
  show "wf (measure (\<lambda>(M :: match_env, bs). 2 * length (answers (the_backend (di_mgr bs)))
                   + (if input_mgr bs = [] then 0 else 1)))"
    by simp
next
  fix M :: match_env and bs x2 bs1
  assume "input_loop bs = Some x2" and "x2 = Done bs1"
  then have "input_loop bs = Some (Done bs1)" by simp
  from input_loop_Done [OF this]
  show "((M, bs1\<lparr>input_mgr :=
                   snd (bgpstream_input_mgr_get_queue_to_process (input_mgr bs1)),
                 reader_mgr :=
                   bgpstream_reader_mgr_add M (reader_mgr bs1)
                     (fst (bgpstream_input_mgr_get_queue_to_process (input_mgr bs1)))
                     (filter_mgr bs1)\<rparr>), M, bs)
      \<in> measure (\<lambda>(M, bs). 2 * length (answers (the_backend (di_mgr bs)))
                   + (if input_mgr bs = [] then 0 else 1))"
    by (auto simp: bgpstream_input_mgr_get_queue_to_process_def)
qed

declare input_loop.simps [simp del] reader_loop.simps [simp del]

text \<open>\<^verbatim>\<open>bgpstream_get_next_record\<close>. \<open>r\<close> is the record the caller passes; the result
  holds the return value, the coordinator and the record after the call.\<close>

definition bgpstream_get_next_record ::
  "match_env \<Rightarrow> bgpstream option \<Rightarrow> bgpstream_record \<Rightarrow>
   (retval \<times> bgpstream option \<times> bgpstream_record) option" where
  "bgpstream_get_next_record M h r =
     (case h of
        None \<Rightarrow> Some (RInt (- 1), None, r)
      | Some bs \<Rightarrow>
          if status bs \<noteq> BGPSTREAM_STATUS_ON then Some (RInt (- 1), Some bs, r)
          else
            (case reader_loop M bs of
               None \<Rightarrow> None
             | Some (Return rc bs') \<Rightarrow> Some (RInt rc, Some bs', bgpstream_record_clear r)
             | Some (Done bs') \<Rightarrow>
                 (case bgpstream_reader_mgr_get_next_record M (reader_mgr bs')
                         ((bgpstream_record_clear r)\<lparr>rec_bs := True\<rparr>) (filter_mgr bs') of
                    (rc, rm', r') \<Rightarrow> Some (RInt rc, Some (bs'\<lparr>reader_mgr := rm'\<rparr>), r'))))"

text \<open>\<^verbatim>\<open>bgpstream_stop\<close> (static)\<close>

definition bgpstream_stop :: "bgpstream option \<Rightarrow> event list \<times> bgpstream option" where
  "bgpstream_stop h =
     (case h of
        None \<Rightarrow> ([], None)
      | Some bs \<Rightarrow>
          if status bs \<noteq> BGPSTREAM_STATUS_ON then ([], Some bs)
          else ([StatusSet BGPSTREAM_STATUS_OFF],
                Some (bs\<lparr>status := BGPSTREAM_STATUS_OFF\<rparr>)))"

text \<open>\<^verbatim>\<open>bgpstream_destroy\<close>: the trace of what it does; the object is freed, so that
  no coordinator is left behind the handle.\<close>

definition bgpstream_destroy :: "bgpstream option \<Rightarrow> event list" where
  "bgpstream_destroy h =
     (case h of
        None \<Rightarrow> []
      | Some bs \<Rightarrow>
          fst (bgpstream_stop (Some bs)) @
          [Destroyed INPUT_MGR, Destroyed READER_MGR, Destroyed FILTER_MGR,
           Destroyed DI_MGR, Freed])"

subsection \<open>The records a caller gets, and files in time order\<close>

text \<open>A call of \<^verbatim>\<open>bgpstream_get_next_record\<close> is successful when it returns a positive
  value. \<open>next_records M n bs r\<close> are the timestamps of the records that the
  successful ones of \<open>n\<close> calls in a row deliver; a call that never returns ends the
  sequence.\<close>

definition is_success :: "retval \<Rightarrow> bool" where
  "is_success rv = (case rv of RVoid \<Rightarrow> False | RInt n \<Rightarrow> 0 < n)"

fun next_records :: "match_env \<Rightarrow> nat \<Rightarrow> bgpstream \<Rightarrow> bgpstream_record \<Rightarrow> u32 list" where
  "next_records M 0 bs r = []"
| "next_records M (Suc n) bs r =
     (case bgpstream_get_next_record M (Some bs) r of
        None \<Rightarrow> []
      | Some (rv, None, r') \<Rightarrow> []
      | Some (rv, Some bs', r') \<Rightarrow>
          (if is_success rv
           then (case rec_entry r' of None \<Rightarrow> [] | Some e \<Rightarrow> [record_time e])
           else []) @ next_records M n bs' r')"

text \<open>The timestamps of the records of a file, of an open reader (its head record and
  what it has not decoded yet), of a queue, of the answers the backend has yet to
  give, and of all of them.\<close>

definition file_times :: "bgpstream_input \<Rightarrow> u32 list" where
  "file_times i = map record_time (dump_records i)"

definition reader_times :: "bgpstream_reader \<Rightarrow> u32 list" where
  "reader_times R = map record_time (head_record R # undecoded R)"

fun poll_files :: "poll_result \<Rightarrow> bgpstream_input list" where
  "poll_files POLL_ERROR = []"
| "poll_files (POLL_OK ins) = ins"

definition queue_times :: "bgpstream_input list \<Rightarrow> u32 set" where
  "queue_times q = (\<Union>i\<in>set q. set (file_times i))"

definition answers_times :: "poll_result list \<Rightarrow> u32 set" where
  "answers_times ps = (\<Union>p\<in>set ps. queue_times (poll_files p))"

definition readers_times :: "bgpstream_reader list \<Rightarrow> u32 set" where
  "readers_times rm = (\<Union>R\<in>set rm. set (reader_times R))"

text \<open>The answers of the backend are in order when the records of each file are in
  non-decreasing time order and no file holds a record older than a record of a file
  of an earlier answer. A coordinator is in time order when this holds of its open
  readers, then its input queue, then the answers to come.\<close>

fun answers_in_order :: "poll_result list \<Rightarrow> bool" where
  "answers_in_order [] = True"
| "answers_in_order (p # ps) =
     ((\<forall>i\<in>set (poll_files p). sorted (file_times i)) \<and>
      (\<forall>t\<in>queue_times (poll_files p). \<forall>t'\<in>answers_times ps. t \<le> t') \<and>
      answers_in_order ps)"

definition in_time_order :: "bgpstream \<Rightarrow> bool" where
  "in_time_order bs =
     ((\<forall>R\<in>set (reader_mgr bs). sorted (reader_times R)) \<and>
      (\<forall>i\<in>set (input_mgr bs). sorted (file_times i)) \<and>
      answers_in_order (answers (the_backend (di_mgr bs))) \<and>
      (\<forall>t\<in>readers_times (reader_mgr bs).
         \<forall>t'\<in>queue_times (input_mgr bs) \<union> answers_times (answers (the_backend (di_mgr bs))).
           t \<le> t') \<and>
      (\<forall>t\<in>queue_times (input_mgr bs).
         \<forall>t'\<in>answers_times (answers (the_backend (di_mgr bs))). t \<le> t'))"

definition pending_times :: "bgpstream \<Rightarrow> u32 set" where
  "pending_times bs =
     readers_times (reader_mgr bs) \<union> queue_times (input_mgr bs) \<union>
     answers_times (answers (the_backend (di_mgr bs)))"

fun exit_state :: "loop_exit \<Rightarrow> bgpstream" where
  "exit_state (Return rc bs) = bs"
| "exit_state (Done bs) = bs"

subsection \<open>The backoff, in closed form\<close>

text \<open>The sleeps the specification announces for \<open>k\<close> empty polls in a row: 30 s,
  doubling, capped at one hour. \<open>sleeps_from\<close> and \<open>sleep_times\<close> unroll what the polling
  loop does in \<open>k\<close> rounds.\<close>

definition backoff_sequence :: "nat \<Rightarrow> int list" where
  "backoff_sequence k = map (\<lambda>i. min (30 * 2 ^ i) 3600) [0..<k]"

fun sleeps_from :: "int \<Rightarrow> nat \<Rightarrow> int list" where
  "sleeps_from b 0 = []"
| "sleeps_from b (Suc k) = b # sleeps_from (min (2 * b) DATASOURCE_BLOCKING_MAX_WAIT) k"

fun sleep_times :: "nat \<Rightarrow> bgpstream_di_mgr \<Rightarrow> bgpstream_di_mgr" where
  "sleep_times 0 di = di"
| "sleep_times (Suc k) di = sleep_times k (backoff_sleep di)"

subsection \<open>Reading the traces\<close>

fun constructed :: "event list \<Rightarrow> component list" where
  "constructed [] = []"
| "constructed (Created c # es) = c # constructed es"
| "constructed (e # es) = constructed es"

fun released :: "event list \<Rightarrow> component list" where
  "released [] = []"
| "released (Destroyed c # es) = c # released es"
| "released (e # es) = released es"

subsection \<open>Concrete coordinators\<close>

text \<open>A backend that can be reached and has nothing to give; the coordinator
  \<^verbatim>\<open>bgpstream_create\<close> returns for it; filters that admit everything; the record of
  a caller before its first call.\<close>

definition quiet_backend :: backend where
  "quiet_backend = \<lparr>reachable = True, answers = []\<rparr>"

definition fresh_bs :: bgpstream where
  "fresh_bs =
     \<lparr>status = BGPSTREAM_STATUS_ALLOCATED,
      filter_mgr = bgpstream_filter_mgr_create,
      di_mgr = bgpstream_di_mgr_create quiet_backend,
      input_mgr = bgpstream_input_mgr_create,
      reader_mgr = bgpstream_reader_mgr_create\<rparr>"

definition admit_all :: match_env where
  "admit_all = \<lparr>coarse_match = (\<lambda>fm i. True), elem_match = (\<lambda>fs r. True)\<rparr>"

definition blank_record :: bgpstream_record where
  "blank_record = \<lparr>rec_bs = False, rec_entry = None\<rparr>"

text \<open>A file whose second record is older than its first; a coordinator that has been
  created on a backend with the given answers to come, given the one interval
  \<open>[0, 2000000000]\<close> and started; a file of a collector with records at the given
  times.\<close>

definition disordered_file :: bgpstream_input where
  "disordered_file =
     \<lparr>file_path = ''updates.20150101.mrt'', file_type = UPDATES, collector = ''rrc00'',
      project = ''ris'', file_time = 3,
      dump_records = [\<lparr>record_time = 5, payload = ''a''\<rparr>, \<lparr>record_time = 3, payload = ''b''\<rparr>]\<rparr>"

definition started_bs :: "poll_result list \<Rightarrow> bgpstream" where
  "started_bs ps =
     \<lparr>status = BGPSTREAM_STATUS_ON,
      filter_mgr = bgpstream_filter_mgr_interval_filter_add bgpstream_filter_mgr_create
                     0 2000000000,
      di_mgr = (bgpstream_di_mgr_create \<lparr>reachable = True, answers = ps\<rparr>)
                 \<lparr>di_status := BGPSTREAM_DATASOURCE_STATUS_ON\<rparr>,
      input_mgr = bgpstream_input_mgr_create,
      reader_mgr = bgpstream_reader_mgr_create\<rparr>"

definition file_at :: "string \<Rightarrow> u32 list \<Rightarrow> bgpstream_input" where
  "file_at c ts =
     \<lparr>file_path = c @ ''.mrt'', file_type = UPDATES, collector = c, project = ''ris'',
      file_time = (case ts of [] \<Rightarrow> 0 | t # _ \<Rightarrow> t),
      dump_records = map (\<lambda>t. \<lparr>record_time = t, payload = []\<rparr>) ts\<rparr>"

lemma create_fresh:
  "bgpstream_create True (\<lambda>c. True) quiet_backend =
     ([Created FILTER_MGR, Created DI_MGR, Created INPUT_MGR, Created READER_MGR],
      Some fresh_bs)"
  by (simp add: bgpstream_create_def fresh_bs_def)

lemma started_reachable:
  "(case bgpstream_create True (\<lambda>c. True) \<lparr>reachable = True, answers = ps\<rparr> of
      (evs, h) \<Rightarrow>
        (case bgpstream_add_interval_filter h 0 2000000000 of
           Inl f \<Rightarrow> Inl f
         | Inr (rv, h') \<Rightarrow> bgpstream_start h'))
   = Inr (RInt 0, started_bs ps)"
  by (simp add: bgpstream_create_def bgpstream_add_interval_filter_def BGPSTREAM_FOREVER_def
      bgpstream_start_def bgpstream_filter_mgr_validate_def bgpstream_di_mgr_start_def
      bgpstream_filter_mgr_interval_filter_add_def bgpstream_filter_mgr_create_def
      bgpstream_di_mgr_create_def started_bs_def)

section \<open>Monotonic emission\<close>

lemma set_input_mgr_push_all:
  "set (foldl bgpstream_input_mgr_push im ins) = set im \<union> set ins"
  by (induction ins arbitrary: im) (auto simp: bgpstream_input_mgr_push_def set_insort_key)

lemma answers_times_Cons:
  "answers_times (p # ps) = queue_times (poll_files p) \<union> answers_times ps"
  by (simp add: answers_times_def)

lemma queue_times_Nil: "queue_times [] = {}"
  by (simp add: queue_times_def)

lemma poll_loop_in_order:
  "poll_loop di im ps = Some (n, di', im') \<Longrightarrow> answers_in_order ps \<Longrightarrow>
   answers_in_order (answers (the_backend di')) \<and>
   answers_times (answers (the_backend di')) \<subseteq> answers_times ps \<and>
   (\<forall>i\<in>set im' - set im.
      sorted (file_times i) \<and> set (file_times i) \<subseteq> answers_times ps \<and>
      (\<forall>t\<in>set (file_times i). \<forall>t'\<in>answers_times (answers (the_backend di')). t \<le> t'))"
proof (induction di im ps rule: poll_loop.induct)
  case (1 di im)
  then show ?case
    by (auto simp: set_answers_def split: if_splits)
next
  case (2 di im ps)
  then show ?case
    by (auto simp: set_answers_def answers_times_Cons)
next
  case (3 di im ins ps)
  show ?case
  proof (cases "ins = []")
    case False
    with "3.prems" have r: "di' = (set_answers di ps)\<lparr>backoff_time := DATASOURCE_BLOCKING_MIN_WAIT\<rparr>"
      "im' = foldl bgpstream_input_mgr_push im ins"
      by simp_all
    have a: "answers (the_backend di') = ps"
      by (simp add: r set_answers_def)
    have s: "set im' - set im \<subseteq> set ins"
      by (auto simp: r set_input_mgr_push_all)
    from "3.prems"(2) s show ?thesis
      unfolding a by (auto simp: answers_times_Cons queue_times_def)
  next
    case True
    show ?thesis
    proof (cases "blocking di \<noteq> 0")
      case True
      with \<open>ins = []\<close> "3.prems" have "poll_loop (backoff_sleep di) im ps = Some (n, di', im')"
        and "answers_in_order ps"
        by simp_all
      moreover have "\<not> ins \<noteq> []"
        using \<open>ins = []\<close> by simp
      ultimately have "answers_in_order (answers (the_backend di')) \<and>
          answers_times (answers (the_backend di')) \<subseteq> answers_times ps \<and>
          (\<forall>i\<in>set im' - set im.
             sorted (file_times i) \<and> set (file_times i) \<subseteq> answers_times ps \<and>
             (\<forall>t\<in>set (file_times i).
                \<forall>t'\<in>answers_times (answers (the_backend di')). t \<le> t'))"
        using "3.IH" True by blast
      with \<open>ins = []\<close> show ?thesis
        by (auto simp: answers_times_Cons queue_times_Nil)
    next
      case False
      with \<open>ins = []\<close> "3.prems" show ?thesis
        by (auto simp: set_answers_def answers_times_Cons queue_times_Nil)
    qed
  qed
qed

lemma reader_advance_suffix:
  assumes "reader_advance M fm i rs = Some R"
  shows "rs = takeWhile (\<lambda>r. \<not> fine_match M fm r) rs @ head_record R # undecoded R"
proof -
  let ?P = "\<lambda>r. \<not> fine_match M fm r"
  from assms have d: "dropWhile ?P rs = head_record R # undecoded R"
    by (auto simp: reader_advance_def split: list.splits)
  have "rs = takeWhile ?P rs @ dropWhile ?P rs"
    by simp
  with d show ?thesis
    by simp
qed

lemma reader_advance_subset:
  assumes "reader_advance M fm i rs = Some R"
  shows "set (reader_times R) \<subseteq> set (map record_time rs)"
proof -
  obtain pre where "rs = pre @ head_record R # undecoded R"
    using reader_advance_suffix [OF assms] by blast
  then have "set (head_record R # undecoded R) \<subseteq> set rs"
    by auto
  then show ?thesis
    unfolding reader_times_def set_map by (rule image_mono)
qed

lemma reader_advance_sorted:
  assumes "reader_advance M fm i rs = Some R" and "sorted (map record_time rs)"
  shows "sorted (reader_times R)"
proof -
  let ?P = "\<lambda>r. \<not> fine_match M fm r"
  have "sorted (map record_time (takeWhile ?P rs @ head_record R # undecoded R))"
    using assms(2) reader_advance_suffix [OF assms(1)] by simp
  then have "sorted (map record_time (head_record R # undecoded R))"
    unfolding map_append sorted_append by blast
  then show ?thesis
    by (simp only: reader_times_def)
qed

lemma reader_open_subset:
  "reader_open M fm i = Some R \<Longrightarrow> set (reader_times R) \<subseteq> set (file_times i)"
  using reader_advance_subset [of M fm i "dump_records i" R]
  by (simp add: reader_open_def file_times_def split: if_splits)

lemma reader_open_sorted:
  "reader_open M fm i = Some R \<Longrightarrow> sorted (file_times i) \<Longrightarrow> sorted (reader_times R)"
  using reader_advance_sorted [of M fm i "dump_records i" R]
  by (simp add: reader_open_def file_times_def split: if_splits)

lemma set_replace_first:
  "set (replace_first R new xs) \<subseteq> set xs \<union> set_option new"
  by (induction xs) (auto split: option.splits)

lemma least_reader:
  assumes "rm \<noteq> []" and "R \<in> set rm"
  shows "record_time (head_record (arg_min_list reader_key rm)) \<le> record_time (head_record R)"
proof -
  have "reader_key (arg_min_list reader_key rm) = Min (reader_key ` set rm)"
    by (rule f_arg_min_list_f [OF assms(1)])
  then have "reader_key (arg_min_list reader_key rm) \<le> reader_key R"
    using assms(2) by simp
  then show ?thesis
    by (auto simp: reader_key_def)
qed

lemma poll_step_in_order:
  assumes e: "input_mgr bs = []"
    and q: "bgpstream_di_mgr_get_queue (di_mgr bs) (input_mgr bs) = Some (n, di', im')"
    and o: "in_time_order bs"
  shows "in_time_order (bs\<lparr>di_mgr := di', input_mgr := im'\<rparr>) \<and>
         pending_times (bs\<lparr>di_mgr := di', input_mgr := im'\<rparr>) \<subseteq> pending_times bs"
proof -
  let ?A = "answers (the_backend (di_mgr bs))"
  let ?A' = "answers (the_backend di')"
  from q e have p: "poll_loop (di_mgr bs) [] ?A = Some (n, di', im')"
    by (simp add: bgpstream_di_mgr_get_queue_def)
  from o have oa: "answers_in_order ?A"
    and ra: "\<forall>t\<in>readers_times (reader_mgr bs). \<forall>t'\<in>answers_times ?A. t \<le> t'"
    and rs: "\<forall>R\<in>set (reader_mgr bs). sorted (reader_times R)"
    by (simp_all add: in_time_order_def)
  from poll_loop_in_order [OF p oa]
  have a': "answers_in_order ?A'"
    and sub: "answers_times ?A' \<subseteq> answers_times ?A"
    and new: "\<forall>i\<in>set im'. sorted (file_times i) \<and> set (file_times i) \<subseteq> answers_times ?A \<and>
        (\<forall>t\<in>set (file_times i). \<forall>t'\<in>answers_times ?A'. t \<le> t')"
    by simp_all
  from new have qsub: "queue_times im' \<subseteq> answers_times ?A"
    by (auto simp: queue_times_def)
  from new have qle: "\<forall>t\<in>queue_times im'. \<forall>t'\<in>answers_times ?A'. t \<le> t'"
    by (auto simp: queue_times_def)
  have rle: "\<forall>t\<in>readers_times (reader_mgr bs). \<forall>t'\<in>queue_times im' \<union> answers_times ?A'. t \<le> t'"
    using ra sub qsub by blast
  have "in_time_order (bs\<lparr>di_mgr := di', input_mgr := im'\<rparr>)"
    using rs new a' rle qle by (simp add: in_time_order_def)
  moreover have "pending_times (bs\<lparr>di_mgr := di', input_mgr := im'\<rparr>) \<subseteq> pending_times bs"
    using sub qsub by (auto simp: pending_times_def)
  ultimately show ?thesis ..
qed

lemma input_loop_in_order:
  "input_loop bs = Some ex \<Longrightarrow> in_time_order bs \<Longrightarrow>
   in_time_order (exit_state ex) \<and> pending_times (exit_state ex) \<subseteq> pending_times bs \<and>
   (\<forall>rc b. ex = Return rc b \<longrightarrow> rc \<le> 0)"
proof (induction bs rule: input_loop.induct)
  case (1 bs)
  note u = input_loop.simps [of bs]
  show ?case
  proof (cases "bgpstream_input_mgr_is_empty (input_mgr bs)")
    case False
    with u "1.prems"(1) have "ex = Done bs"
      by simp
    with "1.prems"(2) show ?thesis by simp
  next
    case True
    with u "1.prems"(1) obtain n di' im' where
      q: "bgpstream_di_mgr_get_queue (di_mgr bs) (input_mgr bs) = Some (n, di', im')"
      by (auto split: option.splits)
    let ?bs' = "bs\<lparr>di_mgr := di', input_mgr := im'\<rparr>"
    from True have e: "input_mgr bs = []"
      by (simp add: bgpstream_input_mgr_is_empty_def)
    note step = poll_step_in_order [OF e q "1.prems"(2)]
    show ?thesis
    proof (cases "n = 0 \<or> n < 0")
      case True
      with \<open>bgpstream_input_mgr_is_empty (input_mgr bs)\<close> q u "1.prems"(1)
      have "ex = Return 0 ?bs' \<or> ex = Return (- 1) ?bs'"
        by (auto split: if_splits)
      with step show ?thesis by auto
    next
      case False
      then have n: "n \<noteq> 0" "\<not> n < 0" by simp_all
      with \<open>bgpstream_input_mgr_is_empty (input_mgr bs)\<close> q u "1.prems"(1)
      have "input_loop ?bs' = Some ex"
        by simp
      from "1.IH" [OF \<open>bgpstream_input_mgr_is_empty (input_mgr bs)\<close> q refl refl n this] step
      show ?thesis by auto
    qed
  qed
qed

lemma set_readers_opened:
  "set (List.map_filter (reader_open M fm) q) = {R. \<exists>i\<in>set q. reader_open M fm i = Some R}"
  by (induction q) (auto split: option.splits)

lemma readers_times_add:
  "readers_times (bgpstream_reader_mgr_add M rm q fm) \<subseteq> readers_times rm \<union> queue_times q"
proof
  fix t
  assume "t \<in> readers_times (bgpstream_reader_mgr_add M rm q fm)"
  then obtain R where R: "R \<in> set rm \<or> (\<exists>i\<in>set q. reader_open M fm i = Some R)"
    and t: "t \<in> set (reader_times R)"
    by (auto simp: readers_times_def bgpstream_reader_mgr_add_def set_readers_opened)
  from R show "t \<in> readers_times rm \<union> queue_times q"
  proof
    assume "R \<in> set rm"
    with t show ?thesis by (auto simp: readers_times_def)
  next
    assume "\<exists>i\<in>set q. reader_open M fm i = Some R"
    then obtain i where i: "i \<in> set q" "reader_open M fm i = Some R" by blast
    from reader_open_subset [OF i(2)] t i(1) show ?thesis
      by (auto simp: queue_times_def)
  qed
qed

lemma drain_step_in_order:
  assumes o: "in_time_order bs"
  shows "in_time_order
           (bs\<lparr>input_mgr := snd (bgpstream_input_mgr_get_queue_to_process (input_mgr bs)),
               reader_mgr :=
                 bgpstream_reader_mgr_add M (reader_mgr bs)
                   (fst (bgpstream_input_mgr_get_queue_to_process (input_mgr bs)))
                   (filter_mgr bs)\<rparr>) \<and>
         pending_times
           (bs\<lparr>input_mgr := snd (bgpstream_input_mgr_get_queue_to_process (input_mgr bs)),
               reader_mgr :=
                 bgpstream_reader_mgr_add M (reader_mgr bs)
                   (fst (bgpstream_input_mgr_get_queue_to_process (input_mgr bs)))
                   (filter_mgr bs)\<rparr>) \<subseteq> pending_times bs"
proof -
  let ?rm = "bgpstream_reader_mgr_add M (reader_mgr bs) (input_mgr bs) (filter_mgr bs)"
  let ?A = "answers (the_backend (di_mgr bs))"
  have sub: "readers_times ?rm \<subseteq> readers_times (reader_mgr bs) \<union> queue_times (input_mgr bs)"
    by (rule readers_times_add)
  have srt: "\<forall>R\<in>set ?rm. sorted (reader_times R)"
  proof
    fix R
    assume "R \<in> set ?rm"
    then have "R \<in> set (reader_mgr bs) \<or>
        (\<exists>i\<in>set (input_mgr bs). reader_open M (filter_mgr bs) i = Some R)"
      by (auto simp: bgpstream_reader_mgr_add_def set_readers_opened)
    with o show "sorted (reader_times R)"
      using reader_open_sorted by (auto simp: in_time_order_def)
  qed
  from o have "\<forall>t\<in>readers_times (reader_mgr bs) \<union> queue_times (input_mgr bs).
      \<forall>t'\<in>answers_times ?A. t \<le> t'"
    by (auto simp: in_time_order_def)
  with sub have le: "\<forall>t\<in>readers_times ?rm. \<forall>t'\<in>answers_times ?A. t \<le> t'"
    by blast
  from o have "answers_in_order ?A"
    by (simp add: in_time_order_def)
  with srt le have "in_time_order (bs\<lparr>input_mgr := [], reader_mgr := ?rm\<rparr>)"
    by (simp add: in_time_order_def queue_times_Nil)
  moreover from sub have "pending_times (bs\<lparr>input_mgr := [], reader_mgr := ?rm\<rparr>)
      \<subseteq> pending_times bs"
    unfolding pending_times_def by (simp add: queue_times_Nil) blast
  ultimately show ?thesis
    by (simp add: bgpstream_input_mgr_get_queue_to_process_def)
qed

lemma reader_loop_in_order:
  "reader_loop M bs = Some ex \<Longrightarrow> in_time_order bs \<Longrightarrow>
   in_time_order (exit_state ex) \<and> pending_times (exit_state ex) \<subseteq> pending_times bs \<and>
   (\<forall>bs'. ex = Done bs' \<longrightarrow> reader_mgr bs' \<noteq> []) \<and>
   (\<forall>rc b. ex = Return rc b \<longrightarrow> rc \<le> 0)"
proof (induction M bs rule: reader_loop.induct)
  case (1 M bs)
  show ?case
  proof (cases "bgpstream_reader_mgr_is_empty (reader_mgr bs)")
    case False
    then have "reader_loop M bs = Some (Done bs)"
      by (subst reader_loop.simps) simp
    with False "1.prems" show ?thesis
      by (auto simp: bgpstream_reader_mgr_is_empty_def)
  next
    case True
    have "input_loop bs \<noteq> None"
    proof
      assume "input_loop bs = None"
      then have "reader_loop M bs = None"
        by (subst reader_loop.simps) (simp add: True)
      with "1.prems"(1) show False by simp
    qed
    then obtain ex1 where i: "input_loop bs = Some ex1"
      by blast
    note inner = input_loop_in_order [OF i "1.prems"(2)]
    show ?thesis
    proof (cases ex1)
      case (Return rc bs')
      have "reader_loop M bs = Some (Return rc bs')"
        by (subst reader_loop.simps) (simp add: True i Return)
      with "1.prems"(1) have "ex = Return rc bs'"
        by simp
      with inner Return show ?thesis by simp
    next
      case (Done bs1)
      let ?bs2 = "bs1\<lparr>input_mgr :=
                      snd (bgpstream_input_mgr_get_queue_to_process (input_mgr bs1)),
                    reader_mgr :=
                      bgpstream_reader_mgr_add M (reader_mgr bs1)
                        (fst (bgpstream_input_mgr_get_queue_to_process (input_mgr bs1)))
                        (filter_mgr bs1)\<rparr>"
      have "reader_loop M bs = reader_loop M ?bs2"
        by (subst reader_loop.simps) (simp add: True i Done)
      with "1.prems"(1) have r: "reader_loop M ?bs2 = Some ex"
        by simp
      from inner Done have o1: "in_time_order bs1" and p1: "pending_times bs1 \<subseteq> pending_times bs"
        by simp_all
      note d = drain_step_in_order [OF o1, of M]
      from "1.IH" [OF True i [unfolded Done] refl r] d p1 show ?thesis
        by blast
    qed
  qed
qed


lemma pop_step_in_order:
  assumes o: "in_time_order bs" and ne: "reader_mgr bs \<noteq> []"
    and g: "bgpstream_reader_mgr_get_next_record M (reader_mgr bs) r (filter_mgr bs)
              = (rc, rm', r')"
  shows "rc = 1 \<and>
         (\<exists>e. rec_entry r' = Some e \<and> record_time e \<in> pending_times bs \<and>
              (\<forall>t\<in>pending_times (bs\<lparr>reader_mgr := rm'\<rparr>). record_time e \<le> t)) \<and>
         in_time_order (bs\<lparr>reader_mgr := rm'\<rparr>) \<and>
         pending_times (bs\<lparr>reader_mgr := rm'\<rparr>) \<subseteq> pending_times bs"
proof -
  let ?rm = "reader_mgr bs"
  let ?R = "arg_min_list reader_key ?rm"
  let ?new = "reader_advance M (filter_mgr bs) (reader_input ?R) (undecoded ?R)"
  let ?h = "record_time (head_record ?R)"
  let ?A = "answers (the_backend (di_mgr bs))"
  from g ne have rc: "rc = 1" and rm': "rm' = replace_first ?R ?new ?rm"
    and r': "rec_entry r' = Some (head_record ?R)"
    by (auto simp: bgpstream_reader_mgr_get_next_record_def Let_def)
  from o have srt: "\<forall>R\<in>set ?rm. sorted (reader_times R)"
    and later: "\<forall>t\<in>readers_times ?rm.
        \<forall>t'\<in>queue_times (input_mgr bs) \<union> answers_times ?A. t \<le> t'"
    by (simp_all add: in_time_order_def)
  have Rin: "?R \<in> set ?rm"
    by (rule arg_min_list_in [OF ne])
  then have hin: "?h \<in> readers_times ?rm"
    by (auto simp: readers_times_def reader_times_def)
  have least: "?h \<le> t" if "t \<in> readers_times ?rm" for t
  proof -
    from that obtain R where R: "R \<in> set ?rm" "t \<in> set (reader_times R)"
      by (auto simp: readers_times_def)
    from srt R(1) have "sorted (reader_times R)" by blast
    with R(2) have "record_time (head_record R) \<le> t"
      by (auto simp: reader_times_def)
    with least_reader [OF ne R(1)] show ?thesis by simp
  qed
  have new_sub: "set (reader_times R') \<subseteq> set (reader_times ?R)"
    and new_srt: "sorted (reader_times R')" if "?new = Some R'" for R'
  proof -
    from srt Rin have "sorted (reader_times ?R)" by blast
    then have "sorted (map record_time (undecoded ?R))"
      by (simp add: reader_times_def)
    from reader_advance_sorted [OF that this] show "sorted (reader_times R')" .
    from reader_advance_subset [OF that]
    show "set (reader_times R') \<subseteq> set (reader_times ?R)"
      by (auto simp: reader_times_def)
  qed
  have mem: "R \<in> set ?rm \<or> ?new = Some R" if "R \<in> set rm'" for R
    using that set_replace_first [of ?R ?new ?rm] unfolding rm' by auto
  have srt': "\<forall>R\<in>set rm'. sorted (reader_times R)"
    using mem srt new_srt by blast
  have sub': "readers_times rm' \<subseteq> readers_times ?rm"
  proof
    fix t
    assume "t \<in> readers_times rm'"
    then obtain R where R: "R \<in> set rm'" "t \<in> set (reader_times R)"
      by (auto simp: readers_times_def)
    from mem [OF R(1)] show "t \<in> readers_times ?rm"
    proof
      assume "R \<in> set ?rm"
      with R(2) show ?thesis by (auto simp: readers_times_def)
    next
      assume "?new = Some R"
      from new_sub [OF this] R(2) Rin show ?thesis
        by (auto simp: readers_times_def)
    qed
  qed
  have ord': "in_time_order (bs\<lparr>reader_mgr := rm'\<rparr>)"
    using o srt' sub' by (simp add: in_time_order_def) blast
  have pend': "pending_times (bs\<lparr>reader_mgr := rm'\<rparr>) \<subseteq> pending_times bs"
    using sub' by (auto simp: pending_times_def)
  have "?h \<le> t" if "t \<in> pending_times (bs\<lparr>reader_mgr := rm'\<rparr>)" for t
  proof -
    from that pend' have "t \<in> pending_times bs" by blast
    then have "t \<in> readers_times ?rm \<or>
        t \<in> queue_times (input_mgr bs) \<union> answers_times ?A"
      by (auto simp: pending_times_def)
    then show ?thesis
      using least later hin by blast
  qed
  moreover have "?h \<in> pending_times bs"
    using hin by (simp add: pending_times_def)
  ultimately show ?thesis
    using rc r' ord' pend' by simp
qed

lemma get_next_record_in_order:
  assumes g: "bgpstream_get_next_record M (Some bs) r = Some (rv, h', r')"
    and o: "in_time_order bs"
  shows "\<exists>bs'. h' = Some bs' \<and> in_time_order bs' \<and> pending_times bs' \<subseteq> pending_times bs \<and>
           (is_success rv \<longrightarrow>
              (\<exists>e. rec_entry r' = Some e \<and> record_time e \<in> pending_times bs \<and>
                   (\<forall>t\<in>pending_times bs'. record_time e \<le> t)))"
proof (cases "status bs \<noteq> BGPSTREAM_STATUS_ON")
  case True
  with g o show ?thesis
    by (auto simp: bgpstream_get_next_record_def is_success_def)
next
  case False
  with g obtain ex where l: "reader_loop M bs = Some ex"
    by (auto simp: bgpstream_get_next_record_def split: option.splits)
  note inv = reader_loop_in_order [OF l o]
  show ?thesis
  proof (cases ex)
    case (Return rc bs1)
    with g False l have "h' = Some bs1" "rv = RInt rc" "r' = bgpstream_record_clear r"
      by (simp_all add: bgpstream_get_next_record_def)
    moreover from inv Return have "rc \<le> 0"
      by simp
    ultimately show ?thesis
      using inv Return by (simp add: is_success_def)
  next
    case (Done bs1)
    obtain rc rm1 r1 where p: "bgpstream_reader_mgr_get_next_record M (reader_mgr bs1)
        ((bgpstream_record_clear r)\<lparr>rec_bs := True\<rparr>) (filter_mgr bs1) = (rc, rm1, r1)"
      using prod_cases3 by blast
    with g False l Done have res: "h' = Some (bs1\<lparr>reader_mgr := rm1\<rparr>)" "rv = RInt rc" "r' = r1"
      by (simp_all add: bgpstream_get_next_record_def)
    from inv Done have o1: "in_time_order bs1" and p1: "pending_times bs1 \<subseteq> pending_times bs"
      and ne: "reader_mgr bs1 \<noteq> []"
      by simp_all
    from pop_step_in_order [OF o1 ne p] p1 res show ?thesis
      by auto
  qed
qed

lemma next_records_in_order:
  "in_time_order bs \<Longrightarrow>
   sorted (next_records M n bs r) \<and> set (next_records M n bs r) \<subseteq> pending_times bs"
proof (induction n arbitrary: bs r)
  case 0
  show ?case by simp
next
  case (Suc n)
  show ?case
  proof (cases "bgpstream_get_next_record M (Some bs) r")
    case None
    then show ?thesis by simp
  next
    case (Some res)
    obtain rv h' r' where res: "res = (rv, h', r')"
      using prod_cases3 by blast
    from get_next_record_in_order [OF Some [unfolded res] Suc.prems]
    obtain bs' where h': "h' = Some bs'" and o': "in_time_order bs'"
      and sub: "pending_times bs' \<subseteq> pending_times bs"
      and ok: "is_success rv \<longrightarrow>
              (\<exists>e. rec_entry r' = Some e \<and> record_time e \<in> pending_times bs \<and>
                   (\<forall>t\<in>pending_times bs'. record_time e \<le> t))"
      by blast
    from Suc.IH [OF o', of r'] have ih: "sorted (next_records M n bs' r')"
      "set (next_records M n bs' r') \<subseteq> pending_times bs'"
      by simp_all
    show ?thesis
    proof (cases "is_success rv")
      case False
      with Some res h' ih sub show ?thesis
        by auto
    next
      case True
      with ok obtain e where e: "rec_entry r' = Some e" "record_time e \<in> pending_times bs"
        "\<forall>t\<in>pending_times bs'. record_time e \<le> t"
        by blast
      from True Some res h' e(1)
      have n: "next_records M (Suc n) bs r = record_time e # next_records M n bs' r'"
        by simp
      from e(3) ih(2) have "\<forall>t\<in>set (next_records M n bs' r'). record_time e \<le> t"
        by blast
      with ih e(2) sub show ?thesis
        unfolding n by auto
    qed
  qed
qed

text \<open>
  Claim C1, as amended. Take any filter set and any coordinator in time order: the
  records of every file (open, queued or still to be returned by the backend) are in
  non-decreasing time order, and no file holds a record older than a record of a file
  of an earlier batch (the open readers, then the input queue, then each answer of the
  backend in turn). Then the timestamps that successive successful calls of
  \<^verbatim>\<open>bgpstream_get_next_record\<close> deliver are non-decreasing, across files too.
\<close>

theorem C1_monotonic_emission:
  "in_time_order bs \<Longrightarrow> sorted (next_records M n bs r)"
  using next_records_in_order by blast

lemma started_in_time_order:
  "in_time_order (started_bs ps) = answers_in_order ps"
  by (simp add: in_time_order_def started_bs_def bgpstream_di_mgr_create_def
      bgpstream_input_mgr_create_def bgpstream_reader_mgr_create_def
      readers_times_def queue_times_def)

theorem C1_monotonic_emission_witness:
  "in_time_order
     (started_bs [POLL_OK [file_at ''rrc00'' [1, 4, 7], file_at ''rrc01'' [2, 3, 9]],
                  POLL_ERROR, POLL_OK [file_at ''rrc01'' [9, 12]]]) \<and>
   next_records admit_all 8
     (started_bs [POLL_OK [file_at ''rrc00'' [1, 4, 7], file_at ''rrc01'' [2, 3, 9]],
                  POLL_ERROR, POLL_OK [file_at ''rrc01'' [9, 12]]]) blank_record
     = [1, 2, 3, 4, 7, 9, 9] \<and>
   sorted (next_records admit_all 8
     (started_bs [POLL_OK [file_at ''rrc00'' [1, 4, 7], file_at ''rrc01'' [2, 3, 9]],
                  POLL_ERROR, POLL_OK [file_at ''rrc01'' [9, 12]]]) blank_record)"
proof -
  let ?ps = "[POLL_OK [file_at ''rrc00'' [1, 4, 7], file_at ''rrc01'' [2, 3, 9]],
              POLL_ERROR, POLL_OK [file_at ''rrc01'' [9, 12]]]"
  have "answers_in_order ?ps"
    by (simp add: queue_times_def answers_times_def file_times_def file_at_def)
  then have o: "in_time_order (started_bs ?ps)"
    by (simp only: started_in_time_order)
  have e: "next_records admit_all 8 (started_bs ?ps) blank_record = [1, 2, 3, 4, 7, 9, 9]"
    by code_simp
  from o e C1_monotonic_emission [OF o, of admit_all 8 blank_record] show ?thesis
    by (simp only: simp_thms)
qed

text \<open>
  Claim C1 as it is stated, for every fixture of input files, fails. A file whose
  records are out of order is delivered in the order of the file (5, then 3). And a
  file that the backend returns in a later answer is read after the files of the
  earlier answers are exhausted, even when its records are older (10, then 4).
\<close>

theorem C1_counterexample:
  "\<not> sorted (next_records admit_all 2 (started_bs [POLL_OK [disordered_file]]) blank_record) \<and>
   \<not> sorted (next_records admit_all 2
        (started_bs [POLL_OK [file_at ''rrc00'' [10]], POLL_OK [file_at ''rrc01'' [4]]])
        blank_record)"
proof -
  have "next_records admit_all 2 (started_bs [POLL_OK [disordered_file]]) blank_record = [5, 3]"
    by code_simp
  moreover have "next_records admit_all 2
        (started_bs [POLL_OK [file_at ''rrc00'' [10]], POLL_OK [file_at ''rrc01'' [4]]])
        blank_record = [10, 4]"
    by code_simp
  ultimately show ?thesis
    by simp
qed

section \<open>Lifecycle gating\<close>

text \<open>
  Claim C2, as the code has it. On a coordinator whose state is not ALLOCATED each of
  the four filter mutations (\<^verbatim>\<open>bgpstream_add_filter\<close>,
  \<^verbatim>\<open>bgpstream_add_rib_period_filter\<close>, \<^verbatim>\<open>bgpstream_add_recent_interval_filter\<close>,
  \<^verbatim>\<open>bgpstream_add_interval_filter\<close>) returns without a value and leaves the whole
  coordinator, so also its filter set, as it was. On a coordinator whose state is not
  ON, \<^verbatim>\<open>bgpstream_get_next_record\<close> returns the error value \<open>-1\<close> and touches neither
  the coordinator nor the record of the caller.
\<close>

theorem C2_gating:
  "(status bs \<noteq> BGPSTREAM_STATUS_ALLOCATED \<longrightarrow>
      bgpstream_add_filter (Some bs) t v = (RVoid, Some bs) \<and>
      bgpstream_add_rib_period_filter (Some bs) p = (RVoid, Some bs) \<and>
      bgpstream_add_recent_interval_filter now (Some bs) s live = Inr (RVoid, Some bs) \<and>
      bgpstream_add_interval_filter (Some bs) b e = Inr (RVoid, Some bs)) \<and>
   (status bs \<noteq> BGPSTREAM_STATUS_ON \<longrightarrow>
      bgpstream_get_next_record M (Some bs) r = Some (RInt (- 1), Some bs, r) \<and>
      is_error (RInt (- 1)))"
  by (simp add: bgpstream_add_filter_def bgpstream_add_rib_period_filter_def
      bgpstream_add_recent_interval_filter_def bgpstream_add_interval_filter_def
      bgpstream_get_next_record_def is_error_def)

theorem C2_gating_witness:
  "bgpstream_add_filter (Some (started_bs [])) FILTER_COLLECTOR ''rrc00''
     = (RVoid, Some (started_bs [])) \<and>
   bgpstream_add_interval_filter (Some (started_bs [])) 0 100
     = Inr (RVoid, Some (started_bs [])) \<and>
   bgpstream_get_next_record admit_all (Some fresh_bs) blank_record
     = Some (RInt (- 1), Some fresh_bs, blank_record)"
proof -
  have a: "status (started_bs []) \<noteq> BGPSTREAM_STATUS_ALLOCATED"
    by (simp add: started_bs_def)
  have b: "status fresh_bs \<noteq> BGPSTREAM_STATUS_ON"
    by (simp add: fresh_bs_def)
  from C2_gating [of "started_bs []" FILTER_COLLECTOR "''rrc00''" _ _ _ _ 0 100] a
    C2_gating [of fresh_bs _ _ _ _ _ _ _ _ admit_all blank_record] b
  show ?thesis
    by simp
qed

text \<open>
  Claim C2 as it is stated asks for an error to be reported by a rejected mutation. The
  mutations are \<^verbatim>\<open>void\<close>: on a coordinator that is ON, what the caller gets back from
  \<^verbatim>\<open>bgpstream_add_filter\<close> and \<^verbatim>\<open>bgpstream_add_rib_period_filter\<close> is no error.
\<close>

theorem C2_counterexample:
  "\<not> is_error (fst (bgpstream_add_filter (Some (started_bs [])) FILTER_COLLECTOR ''rrc00'')) \<and>
   \<not> is_error (fst (bgpstream_add_rib_period_filter (Some (started_bs [])) 3600))"
  by (simp add: bgpstream_add_filter_def bgpstream_add_rib_period_filter_def is_error_def)

text \<open>
  Claim C3 at a coordinator that is ON: \<^verbatim>\<open>bgpstream_set_data_interface\<close> and
  \<^verbatim>\<open>bgpstream_set_data_interface_option\<close> are not rejected. The first replaces the
  selected backend (none before, SQLITE after); the second returns 0 and stores the
  option \<^verbatim>\<open>db-file\<close> (no option before).
\<close>

theorem C3_set_data_interface_when_on:
  "bgpstream_set_data_interface (Some (started_bs [])) BGPSTREAM_DATA_INTERFACE_SQLITE
     = Inr (RVoid,
            (started_bs [])\<lparr>di_mgr := (di_mgr (started_bs []))\<lparr>datasource :=
               Some BGPSTREAM_DATA_INTERFACE_SQLITE\<rparr>\<rparr>) \<and>
   status (started_bs []) = BGPSTREAM_STATUS_ON \<and>
   datasource (di_mgr (started_bs [])) = None \<and>
   bgpstream_set_data_interface_option (Some (started_bs []))
       \<lparr>if_id = BGPSTREAM_DATA_INTERFACE_SQLITE, opt_id = 0, opt_name = ''db-file'',
        opt_description = ''sqlite database''\<rparr> ''/tmp/bgp.db''
     = Inr (RInt 0,
            (started_bs [])\<lparr>di_mgr := (di_mgr (started_bs []))\<lparr>di_options :=
               [((BGPSTREAM_DATA_INTERFACE_SQLITE, ''db-file''), ''/tmp/bgp.db'')]\<rparr>\<rparr>) \<and>
   di_options (di_mgr (started_bs [])) = []"
  by (simp add: bgpstream_set_data_interface_def bgpstream_set_data_interface_option_def
      bgpstream_di_mgr_set_data_interface_def bgpstream_di_mgr_set_data_interface_option_def
      started_bs_def bgpstream_di_mgr_create_def)

section \<open>Starting the stream\<close>

text \<open>
  Claim C4. On a coordinator in state ALLOCATED, \<^verbatim>\<open>bgpstream_start\<close> validates the
  filters and starts the data interface. When the validation succeeds and the data
  interface starts, it returns 0, the state is ON and the data interface is the
  started one; when either fails, the value returned is an error and the state is
  still ALLOCATED.
\<close>

theorem C4_start:
  "status bs = BGPSTREAM_STATUS_ALLOCATED \<Longrightarrow>
   (case bgpstream_start (Some bs) of
      Inl f \<Rightarrow> False
    | Inr (rv, bs') \<Rightarrow>
        if bgpstream_filter_mgr_validate (filter_mgr bs) = 0 \<and>
           fst (bgpstream_di_mgr_start (di_mgr bs)) = 0
        then rv = RInt 0 \<and> status bs' = BGPSTREAM_STATUS_ON \<and>
             di_mgr bs' = snd (bgpstream_di_mgr_start (di_mgr bs))
        else is_error rv \<and> status bs' = BGPSTREAM_STATUS_ALLOCATED)"
  by (simp add: bgpstream_start_def Let_def is_error_def bgpstream_filter_mgr_validate_def
      split: prod.splits)

theorem C4_start_witness:
  "(case bgpstream_start (Some fresh_bs) of
      Inl f \<Rightarrow> False
    | Inr (rv, bs') \<Rightarrow> is_error rv \<and> status bs' = BGPSTREAM_STATUS_ALLOCATED) \<and>
   (case bgpstream_start
        (Some (fresh_bs\<lparr>filter_mgr :=
           bgpstream_filter_mgr_interval_filter_add (filter_mgr fresh_bs) 0 100\<rparr>)) of
      Inl f \<Rightarrow> False
    | Inr (rv, bs') \<Rightarrow> rv = RInt 0 \<and> status bs' = BGPSTREAM_STATUS_ON)"
proof -
  let ?bs = "fresh_bs\<lparr>filter_mgr :=
           bgpstream_filter_mgr_interval_filter_add (filter_mgr fresh_bs) 0 100\<rparr>"
  have a: "status fresh_bs = BGPSTREAM_STATUS_ALLOCATED"
    and b: "status ?bs = BGPSTREAM_STATUS_ALLOCATED"
    by (simp_all add: fresh_bs_def)
  have v1: "bgpstream_filter_mgr_validate (filter_mgr fresh_bs) \<noteq> 0"
    by (simp add: fresh_bs_def bgpstream_filter_mgr_validate_def bgpstream_filter_mgr_create_def)
  have v2: "bgpstream_filter_mgr_validate (filter_mgr ?bs) = 0"
    by (simp add: bgpstream_filter_mgr_validate_def bgpstream_filter_mgr_interval_filter_add_def)
  have s2: "fst (bgpstream_di_mgr_start (di_mgr ?bs)) = 0"
    by (simp add: fresh_bs_def bgpstream_di_mgr_start_def bgpstream_di_mgr_create_def
        quiet_backend_def)
  from C4_start [OF a] v1 C4_start [OF b] v2 s2 show ?thesis
    by (auto split: sum.splits prod.splits)
qed

section \<open>End of stream and errors of the data interface\<close>

lemma poll_loop_zero_bounded:
  "poll_loop di im ps = Some (0, di', im') \<Longrightarrow> blocking di = 0"
  by (induction di im ps rule: poll_loop.induct)
     (auto simp: backoff_sleep_def split: if_splits)

text \<open>
  Claim C5. The coordinator is ON, its reader set and its input queue are empty, so
  that \<^verbatim>\<open>bgpstream_get_next_record\<close> queries the data interface. When the query
  yields zero descriptors (which the data interface reports in bounded mode only) the
  call returns 0, which is not an error; when the query reports a failure (a negative
  count) the call returns \<open>-1\<close>, an error and another value than 0. Either way the
  coordinator holds the data interface and the input queue as the query left them, and
  the record of the caller is cleared.
\<close>

theorem C5_end_of_stream_and_error:
  assumes "status bs = BGPSTREAM_STATUS_ON"
    and "bgpstream_reader_mgr_is_empty (reader_mgr bs)"
    and "bgpstream_input_mgr_is_empty (input_mgr bs)"
    and "bgpstream_di_mgr_get_queue (di_mgr bs) (input_mgr bs) = Some (n, di', im')"
  shows "(n = 0 \<longrightarrow>
            bgpstream_get_next_record M (Some bs) r =
              Some (RInt 0, Some (bs\<lparr>di_mgr := di', input_mgr := im'\<rparr>),
                    bgpstream_record_clear r) \<and>
            \<not> is_error (RInt 0) \<and> blocking (di_mgr bs) = 0) \<and>
         (n < 0 \<longrightarrow>
            bgpstream_get_next_record M (Some bs) r =
              Some (RInt (- 1), Some (bs\<lparr>di_mgr := di', input_mgr := im'\<rparr>),
                    bgpstream_record_clear r) \<and>
            is_error (RInt (- 1)) \<and> RInt (- 1) \<noteq> RInt 0)"
proof -
  have zero: "blocking (di_mgr bs) = 0" if "n = 0"
    using assms(4) that poll_loop_zero_bounded
    by (simp add: bgpstream_di_mgr_get_queue_def)
  from assms zero show ?thesis
    by (simp add: bgpstream_get_next_record_def is_error_def
        reader_loop.simps [of M bs] input_loop.simps [of bs])
qed

theorem C5_end_of_stream_and_error_witness:
  "bgpstream_get_next_record admit_all (Some (started_bs [])) blank_record
     = Some (RInt 0, Some (started_bs []), blank_record) \<and>
   bgpstream_get_next_record admit_all (Some (started_bs [POLL_ERROR])) blank_record
     = Some (RInt (- 1), Some (started_bs []), blank_record)"
proof -
  let ?a = "started_bs []"
  let ?b = "started_bs [POLL_ERROR]"
  have qa: "bgpstream_di_mgr_get_queue (di_mgr ?a) (input_mgr ?a) = Some (0, di_mgr ?a, [])"
    by (simp add: bgpstream_di_mgr_get_queue_def started_bs_def bgpstream_di_mgr_create_def
        set_answers_def bgpstream_input_mgr_create_def)
  have qb: "bgpstream_di_mgr_get_queue (di_mgr ?b) (input_mgr ?b) = Some (- 1, di_mgr ?a, [])"
    by (simp add: bgpstream_di_mgr_get_queue_def started_bs_def bgpstream_di_mgr_create_def
        set_answers_def bgpstream_input_mgr_create_def)
  have s: "status ?a = BGPSTREAM_STATUS_ON" "status ?b = BGPSTREAM_STATUS_ON"
    by (simp_all add: started_bs_def)
  have e: "bgpstream_reader_mgr_is_empty (reader_mgr ?a)"
    "bgpstream_input_mgr_is_empty (input_mgr ?a)"
    "bgpstream_reader_mgr_is_empty (reader_mgr ?b)"
    "bgpstream_input_mgr_is_empty (input_mgr ?b)"
    by (simp_all add: started_bs_def bgpstream_reader_mgr_is_empty_def
        bgpstream_input_mgr_is_empty_def bgpstream_reader_mgr_create_def
        bgpstream_input_mgr_create_def)
  have c: "bgpstream_record_clear blank_record = blank_record"
    by (simp add: bgpstream_record_clear_def blank_record_def)
  have i: "?a\<lparr>input_mgr := []\<rparr> = ?a"
    "?b\<lparr>di_mgr := di_mgr ?a, input_mgr := []\<rparr> = ?a"
    by (simp_all add: started_bs_def bgpstream_input_mgr_create_def)
  from C5_end_of_stream_and_error [OF s(1) e(1,2) qa, of admit_all blank_record]
    C5_end_of_stream_and_error [OF s(2) e(3,4) qb, of admit_all blank_record]
  show ?thesis
    by (simp add: c i)
qed

section \<open>Time intervals\<close>

text \<open>
  Claim C6. On a coordinator in state ALLOCATED, \<^verbatim>\<open>bgpstream_add_interval_filter\<close>
  appends the interval \<open>[begin, end]\<close> to the intervals of the filter set; when the
  end is \<^verbatim>\<open>BGPSTREAM_FOREVER\<close> it also sets the blocking flag of the data interface
  (the live mode), and otherwise it leaves the data interface as it was.
\<close>

theorem C6_add_interval:
  "status bs = BGPSTREAM_STATUS_ALLOCATED \<Longrightarrow>
   bgpstream_add_interval_filter (Some bs) b e =
     Inr (RVoid,
          Some (bs\<lparr>di_mgr := (if e = BGPSTREAM_FOREVER then (di_mgr bs)\<lparr>blocking := 1\<rparr>
                               else di_mgr bs),
                   filter_mgr := (filter_mgr bs)\<lparr>time_intervals :=
                     time_intervals (filter_mgr bs) @ [(b, e)]\<rparr>\<rparr>))"
  by (simp add: bgpstream_add_interval_filter_def bgpstream_set_live_mode_def
      bgpstream_di_mgr_set_blocking_def bgpstream_filter_mgr_interval_filter_add_def)

theorem C6_add_interval_witness:
  "bgpstream_add_interval_filter (Some fresh_bs) 1000 BGPSTREAM_FOREVER =
     Inr (RVoid,
          Some (fresh_bs\<lparr>di_mgr := (di_mgr fresh_bs)\<lparr>blocking := 1\<rparr>,
                   filter_mgr := (filter_mgr fresh_bs)\<lparr>time_intervals :=
                     [(1000, 4294967295)]\<rparr>\<rparr>)) \<and>
   bgpstream_add_interval_filter (Some fresh_bs) 1000 2000 =
     Inr (RVoid,
          Some (fresh_bs\<lparr>filter_mgr := (filter_mgr fresh_bs)\<lparr>time_intervals :=
                     [(1000, 2000)]\<rparr>\<rparr>))"
proof -
  have a: "status fresh_bs = BGPSTREAM_STATUS_ALLOCATED"
    by (simp add: fresh_bs_def)
  have t: "time_intervals (filter_mgr fresh_bs) = []"
    by (simp add: fresh_bs_def bgpstream_filter_mgr_create_def)
  from C6_add_interval [OF a, of 1000 BGPSTREAM_FOREVER] C6_add_interval [OF a, of 1000 2000]
  show ?thesis
    by (simp add: t BGPSTREAM_FOREVER_def)
qed

text \<open>
  Claim C7. On a coordinator in state ALLOCATED, with a duration specifier that parses
  to \<open>d\<close> seconds, \<^verbatim>\<open>bgpstream_add_recent_interval_filter\<close> appends the interval
  \<open>[now - d, now]\<close>; when the live flag is passed it appends \<open>[now - d, FOREVER]\<close>
  instead and sets the live mode. With a specifier that cannot be parsed the
  coordinator is left as it was: no interval is added.
\<close>

theorem C7_add_recent:
  "status bs = BGPSTREAM_STATUS_ALLOCATED \<Longrightarrow>
   (parse_duration spec = Some d \<longrightarrow>
      bgpstream_add_recent_interval_filter now (Some bs) spec islive =
        Inr (RVoid,
             Some (bs\<lparr>di_mgr := (if islive \<noteq> 0 then (di_mgr bs)\<lparr>blocking := 1\<rparr>
                                  else di_mgr bs),
                      filter_mgr := (filter_mgr bs)\<lparr>time_intervals :=
                        time_intervals (filter_mgr bs) @
                        [(now - of_nat d, if islive \<noteq> 0 then BGPSTREAM_FOREVER else now)]\<rparr>\<rparr>))) \<and>
   (parse_duration spec = None \<longrightarrow>
      bgpstream_add_recent_interval_filter now (Some bs) spec islive = Inr (RVoid, Some bs))"
  by (simp add: bgpstream_add_recent_interval_filter_def bgpstream_set_live_mode_def
      bgpstream_time_calc_recent_interval_def
      bgpstream_di_mgr_set_blocking_def bgpstream_filter_mgr_interval_filter_add_def)

theorem C7_add_recent_witness:
  "bgpstream_add_recent_interval_filter 10000 (Some fresh_bs) ''1h'' 0 =
     Inr (RVoid,
          Some (fresh_bs\<lparr>filter_mgr := (filter_mgr fresh_bs)\<lparr>time_intervals :=
                  [(6400, 10000)]\<rparr>\<rparr>)) \<and>
   bgpstream_add_recent_interval_filter 10000 (Some fresh_bs) ''3600'' 1 =
     Inr (RVoid,
          Some (fresh_bs\<lparr>di_mgr := (di_mgr fresh_bs)\<lparr>blocking := 1\<rparr>,
                  filter_mgr := (filter_mgr fresh_bs)\<lparr>time_intervals :=
                  [(6400, 4294967295)]\<rparr>\<rparr>)) \<and>
   bgpstream_add_recent_interval_filter 10000 (Some fresh_bs) ''soon'' 1 =
     Inr (RVoid, Some fresh_bs)"
proof -
  have a: "status fresh_bs = BGPSTREAM_STATUS_ALLOCATED"
    by (simp add: fresh_bs_def)
  have t: "time_intervals (filter_mgr fresh_bs) = []"
    by (simp add: fresh_bs_def bgpstream_filter_mgr_create_def)
  have p: "parse_duration ''1h'' = Some 3600" "parse_duration ''3600'' = Some 3600"
    "parse_duration ''soon'' = None"
    by (simp_all add: parse_duration_def is_digit_def decimal_def unit_seconds_def)
  from C7_add_recent [OF a, of "''1h''" 3600 10000 0]
    C7_add_recent [OF a, of "''3600''" 3600 10000 1]
    C7_add_recent [OF a, of "''soon''" _ 10000 1]
  show ?thesis
    by (simp add: t p BGPSTREAM_FOREVER_def)
qed

section \<open>Destroying the coordinator\<close>

text \<open>
  Claim C8, as the code has it. \<^verbatim>\<open>bgpstream_destroy\<close> first sets the state to OFF
  when the state is ON (and only then), next releases the input queue, the reader
  set, the filter set and the data interface, in this order, and last frees the
  coordinator. \<^verbatim>\<open>bgpstream_create\<close> builds the components in the order filter set,
  data interface, input queue, reader set.
\<close>

theorem C8_destroy:
  "bgpstream_destroy (Some bs) =
     (if status bs = BGPSTREAM_STATUS_ON then [StatusSet BGPSTREAM_STATUS_OFF] else []) @
     [Destroyed INPUT_MGR, Destroyed READER_MGR, Destroyed FILTER_MGR, Destroyed DI_MGR, Freed]
   \<and> released (bgpstream_destroy (Some bs)) = [INPUT_MGR, READER_MGR, FILTER_MGR, DI_MGR]
   \<and> constructed (fst (bgpstream_create True (\<lambda>c. True) b)) =
       [FILTER_MGR, DI_MGR, INPUT_MGR, READER_MGR]"
  by (simp add: bgpstream_destroy_def bgpstream_stop_def bgpstream_create_def)

text \<open>
  Claim C8 as it is stated fails twice: destroying a coordinator that is still
  ALLOCATED never sets the state to OFF, and the order of the releases is not the
  reverse of the order of construction.
\<close>

theorem C8_counterexample:
  "StatusSet BGPSTREAM_STATUS_OFF \<notin> set (bgpstream_destroy (Some fresh_bs)) \<and>
   released (bgpstream_destroy (Some (started_bs []))) \<noteq>
     rev (constructed (fst (bgpstream_create True (\<lambda>c. True) \<lparr>reachable = True, answers = []\<rparr>)))"
  by (simp add: bgpstream_destroy_def bgpstream_stop_def bgpstream_create_def fresh_bs_def
      started_bs_def)

section \<open>Backoff in live mode\<close>

lemma sleep_times_fields:
  "slept (sleep_times k di) = slept di @ sleeps_from (backoff_time di) k \<and>
   blocking (sleep_times k di) = blocking di \<and>
   the_backend (sleep_times k di) = the_backend di \<and>
   datasource (sleep_times k di) = datasource di \<and>
   di_options (sleep_times k di) = di_options di \<and>
   di_status (sleep_times k di) = di_status di"
  by (induction k arbitrary: di) (simp_all add: backoff_sleep_def)

lemma poll_loop_empty_answers:
  "blocking di \<noteq> 0 \<Longrightarrow>
   poll_loop di im (replicate k (POLL_OK []) @ ps) = poll_loop (sleep_times k di) im ps"
proof (induction k arbitrary: di)
  case 0
  show ?case by simp
next
  case (Suc k)
  have b: "blocking (backoff_sleep di) \<noteq> 0"
    using Suc.prems by (simp add: backoff_sleep_def)
  from Suc.IH [OF b] Suc.prems show ?case
    by simp
qed

lemma double_capped:
  "min (2 * min (30 * 2 ^ j) 3600) (3600 :: int) = min (30 * 2 ^ Suc j) 3600"
  by (simp add: min_def)

lemma sleeps_from_closed_form:
  "sleeps_from (min (30 * 2 ^ j) 3600) k = map (\<lambda>i. min (30 * 2 ^ (j + i)) 3600) [0..<k]"
proof (induction k arbitrary: j)
  case 0
  show ?case by simp
next
  case (Suc k)
  have "[0..<Suc k] = 0 # map Suc [0..<k]"
    by (simp add: upt_conv_Cons map_Suc_upt del: upt_Suc)
  then have "map (\<lambda>i. min (30 * 2 ^ (j + i)) (3600 :: int)) [0..<Suc k] =
      min (30 * 2 ^ j) 3600 # map (\<lambda>i. min (30 * 2 ^ (Suc j + i)) 3600) [0..<k]"
    by (simp add: comp_def del: upt_Suc)
  with Suc [of "Suc j"] show ?case
    by (simp add: DATASOURCE_BLOCKING_MAX_WAIT_def double_capped del: upt_Suc)
qed

lemma sleeps_from_min_wait:
  "sleeps_from DATASOURCE_BLOCKING_MIN_WAIT k = backoff_sequence k"
  using sleeps_from_closed_form [of 0 k]
  by (simp add: DATASOURCE_BLOCKING_MIN_WAIT_def backoff_sequence_def)

lemma backoff_mono:
  assumes "i \<le> j"
  shows "min (30 * 2 ^ i) (3600 :: int) \<le> min (30 * 2 ^ j) 3600"
proof -
  from assms have "(2 :: int) ^ i \<le> 2 ^ j"
    by (simp add: power_increasing)
  then have "(30 :: int) * 2 ^ i \<le> 30 * 2 ^ j"
    by simp
  then show ?thesis
    by (rule min.mono) simp
qed

lemma sorted_backoff_sequence: "sorted (backoff_sequence k)"
  unfolding backoff_sequence_def sorted_map
  by (rule sorted_wrt_mono_rel [OF _ sorted_upt [of 0 k]]) (rule backoff_mono)

text \<open>
  Claim C9. The data interface is in live mode with its backoff at the initial 30 s, and
  the backend answers \<open>k\<close> times with zero descriptors before it has files. Then the
  query returns with the files, the sleeps between the polls are exactly
  \<open>backoff_sequence k\<close> and the backoff is back at 30 s after the non-empty poll. That
  sequence is non-decreasing, starts at 30, doubles from one sleep to the next and
  never exceeds the maximum of one hour. A backend that answers with zero descriptors
  for ever keeps the query from returning.
\<close>

theorem C9_backoff:
  assumes "blocking di \<noteq> 0"
    and "backoff_time di = DATASOURCE_BLOCKING_MIN_WAIT"
    and "ins \<noteq> []"
    and "answers (the_backend di) = replicate k (POLL_OK []) @ POLL_OK ins # ps"
  shows "(case bgpstream_di_mgr_get_queue di im of
            None \<Rightarrow> False
          | Some (n, di', im') \<Rightarrow>
              n = int (length ins) \<and>
              slept di' = slept di @ backoff_sequence k \<and>
              backoff_time di' = DATASOURCE_BLOCKING_MIN_WAIT) \<and>
         sorted (backoff_sequence k) \<and>
         (\<forall>i < k. backoff_sequence k ! i = min (30 * 2 ^ i) 3600 \<and>
                  backoff_sequence k ! i \<le> DATASOURCE_BLOCKING_MAX_WAIT) \<and>
         (\<forall>i. Suc i < k \<longrightarrow>
            backoff_sequence k ! Suc i =
              min (2 * backoff_sequence k ! i) DATASOURCE_BLOCKING_MAX_WAIT) \<and>
         (0 < k \<longrightarrow> backoff_sequence k ! 0 = 30) \<and>
         poll_loop di im (replicate k (POLL_OK [])) = None"
proof -
  have b: "blocking (sleep_times k di) \<noteq> 0"
    using assms(1) sleep_times_fields by simp
  have "poll_loop di im (replicate k (POLL_OK []) @ POLL_OK ins # ps) =
      poll_loop (sleep_times k di) im (POLL_OK ins # ps)"
    by (rule poll_loop_empty_answers [OF assms(1)])
  then have run: "poll_loop di im (replicate k (POLL_OK []) @ POLL_OK ins # ps) =
      Some (int (length ins),
            (set_answers (sleep_times k di) ps)\<lparr>backoff_time := DATASOURCE_BLOCKING_MIN_WAIT\<rparr>,
            foldl bgpstream_input_mgr_push im ins)"
    using assms(3) by simp
  have sl: "slept (sleep_times k di) = slept di @ backoff_sequence k"
    using sleep_times_fields [of k di] assms(2) by (simp add: sleeps_from_min_wait)
  have nth: "backoff_sequence k ! i = min (30 * 2 ^ i) 3600" if "i < k" for i
    using that by (simp add: backoff_sequence_def)
  have cap: "backoff_sequence k ! i \<le> DATASOURCE_BLOCKING_MAX_WAIT" if "i < k" for i
    using that by (simp add: nth DATASOURCE_BLOCKING_MAX_WAIT_def)
  have step: "backoff_sequence k ! Suc i =
      min (2 * backoff_sequence k ! i) DATASOURCE_BLOCKING_MAX_WAIT" if "Suc i < k" for i
  proof -
    from that have "i < k" by simp
    with that show ?thesis
      by (simp only: nth DATASOURCE_BLOCKING_MAX_WAIT_def double_capped)
  qed
  have first: "backoff_sequence k ! 0 = 30" if "0 < k"
    using that by (simp add: nth)
  have blocked: "poll_loop di im (replicate k (POLL_OK [])) = None"
    using poll_loop_empty_answers [OF assms(1), of im k "[]"] b by simp
  from run sl nth cap step first blocked sorted_backoff_sequence show ?thesis
    by (simp add: set_answers_def bgpstream_di_mgr_get_queue_def assms(4))
qed

theorem C9_backoff_witness:
  "(case bgpstream_di_mgr_get_queue
           ((bgpstream_di_mgr_create
               \<lparr>reachable = True,
                answers =
                  [POLL_OK [], POLL_OK [], POLL_OK [],
                   POLL_OK [\<lparr>file_path = ''upd.mrt'', file_type = UPDATES,
                             collector = ''rrc00'', project = ''ris'', file_time = 5000,
                             dump_records = []\<rparr>]]\<rparr>)\<lparr>blocking := 1\<rparr>) [] of
      None \<Rightarrow> False
    | Some (n, di', im') \<Rightarrow>
        n = 1 \<and> slept di' = [30, 60, 120] \<and> backoff_time di' = 30) \<and>
   backoff_sequence 9 = [30, 60, 120, 240, 480, 960, 1920, 3600, 3600]"
proof -
  let ?f = "\<lparr>file_path = ''upd.mrt'', file_type = UPDATES, collector = ''rrc00'',
             project = ''ris'', file_time = 5000, dump_records = []\<rparr>"
  let ?di = "(bgpstream_di_mgr_create
               \<lparr>reachable = True,
                answers = [POLL_OK [], POLL_OK [], POLL_OK [], POLL_OK [?f]]\<rparr>)\<lparr>blocking := 1\<rparr>"
  have h: "blocking ?di \<noteq> 0" "backoff_time ?di = DATASOURCE_BLOCKING_MIN_WAIT"
    "[?f] \<noteq> []" "slept ?di = []"
    by (simp_all add: bgpstream_di_mgr_create_def)
  have s3: "backoff_sequence 3 = [30, 60, 120]"
    by (simp add: backoff_sequence_def upt_rec)
  have s9: "backoff_sequence 9 = [30, 60, 120, 240, 480, 960, 1920, 3600, 3600]"
    by (simp add: backoff_sequence_def upt_rec)
  have r: "answers (the_backend ?di) = replicate 3 (POLL_OK []) @ POLL_OK [?f] # []"
    by (simp add: numeral_3_eq_3 bgpstream_di_mgr_create_def)
  have "case bgpstream_di_mgr_get_queue ?di [] of
          None \<Rightarrow> False
        | Some (n, di', im') \<Rightarrow>
            n = int (length [?f]) \<and> slept di' = slept ?di @ backoff_sequence 3 \<and>
            backoff_time di' = DATASOURCE_BLOCKING_MIN_WAIT"
    by (rule C9_backoff [OF h(1,2,3) r, where im = "[]", THEN conjunct1])
  with s9 show ?thesis
    by (auto simp add: s3 h(4) DATASOURCE_BLOCKING_MIN_WAIT_def
        simp del: poll_loop.simps split: option.splits)
qed

section \<open>NULL handles\<close>

text \<open>
  Claim C10, as the code has it. With a \<^verbatim>\<open>NULL\<close> handle the four filter mutations
  and \<^verbatim>\<open>bgpstream_destroy\<close> return without any effect, and
  \<^verbatim>\<open>bgpstream_get_next_record\<close> returns the error value \<open>-1\<close> and leaves the record
  of the caller alone; none of them dereferences the handle.
\<close>

theorem C10_null_handle:
  "bgpstream_add_filter None t v = (RVoid, None) \<and>
   bgpstream_add_rib_period_filter None p = (RVoid, None) \<and>
   bgpstream_add_recent_interval_filter now None s live = Inr (RVoid, None) \<and>
   bgpstream_add_interval_filter None b e = Inr (RVoid, None) \<and>
   bgpstream_destroy None = [] \<and>
   bgpstream_get_next_record M None r = Some (RInt (- 1), None, r) \<and>
   is_error (RInt (- 1))"
  by (simp add: bgpstream_add_filter_def bgpstream_add_rib_period_filter_def
      bgpstream_add_recent_interval_filter_def bgpstream_add_interval_filter_def
      bgpstream_destroy_def bgpstream_get_next_record_def is_error_def)

text \<open>
  Claim C10 as it is stated speaks of every public operation. \<^verbatim>\<open>bgpstream_start\<close>,
  \<^verbatim>\<open>bgpstream_set_data_interface\<close> and \<^verbatim>\<open>bgpstream_set_live_mode\<close> dereference a
  \<^verbatim>\<open>NULL\<close> handle.
\<close>

theorem C10_counterexample:
  "bgpstream_start None = Inl NullPointerDereference \<and>
   bgpstream_set_data_interface None BGPSTREAM_DATA_INTERFACE_SQLITE
     = Inl NullPointerDereference \<and>
   bgpstream_set_live_mode None = Inl NullPointerDereference"
  by (simp add: bgpstream_start_def bgpstream_set_data_interface_def
      bgpstream_set_live_mode_def)

end
